theory Spec2Isabelle
  imports Main "HOL-Library.Word"
begin

unbundle bit_operations_syntax

section \<open>The VA-API H.264 decoder (sys/va/gstvah264dec.c)\<close>

text \<open>
  A shallow embedding of the session controller of \<^verbatim>\<open>gstvah264dec.c\<close>. C integers are
  machine words: \<^verbatim>\<open>gint\<close>, \<^verbatim>\<open>guint\<close>, \<^verbatim>\<open>int32_t\<close>, \<^verbatim>\<open>uint32_t\<close> are \<open>32 word\<close>
  (a signed one is read with \<open>sint\<close> and compared with \<open><s\<close>, an unsigned one with
  \<open>unat\<close> and \<open><\<close>), \<^verbatim>\<open>guint8\<close> is \<open>8 word\<close>, \<^verbatim>\<open>guint16\<close> is \<open>16 word\<close>. A C array is a
  list; a write past its end is undefined behaviour in C and the value \<open>None\<close> here.
  Calls into the accelerator backend and the base classes are recorded in a log of
  calls, and what they answer is a parameter (the record \<open>backend\<close>).

  Names are the source's, without the \<^verbatim>\<open>static\<close> helpers' leading underscore
  (\<^verbatim>\<open>_fill_vaapi_pic\<close> is \<open>fill_vaapi_pic\<close>); a variable \<^verbatim>\<open>slice\<close> is written
  \<open>slc\<close>. Where one C function is given in several definitions, each is a block of
  its body, in the order of the source.
\<close>

type_synonym gint = "32 word"
type_synonym guint = "32 word"
type_synonym guint8 = "8 word"
type_synonym guint16 = "16 word"
type_synonym VASurfaceID = "32 word"

subsection \<open>Constants of va.h\<close>

text \<open>
  The numeric values of the libva header: \<^verbatim>\<open>VA_INVALID_ID\<close> and the
  \<^verbatim>\<open>VA_PICTURE_H264_*\<close> flag bits (one bit each). The \<^verbatim>\<open>VA_RT_FORMAT_*\<close> bits
  and the profiles follow where they are used.
\<close>

definition VA_INVALID_ID :: "32 word" where
  "VA_INVALID_ID = 0xffffffff"

definition VA_PICTURE_H264_INVALID :: "32 word" where
  "VA_PICTURE_H264_INVALID = 0x00000001"

definition VA_PICTURE_H264_TOP_FIELD :: "32 word" where
  "VA_PICTURE_H264_TOP_FIELD = 0x00000002"

definition VA_PICTURE_H264_BOTTOM_FIELD :: "32 word" where
  "VA_PICTURE_H264_BOTTOM_FIELD = 0x00000004"

definition VA_PICTURE_H264_SHORT_TERM_REFERENCE :: "32 word" where
  "VA_PICTURE_H264_SHORT_TERM_REFERENCE = 0x00000008"

definition VA_PICTURE_H264_LONG_TERM_REFERENCE :: "32 word" where
  "VA_PICTURE_H264_LONG_TERM_REFERENCE = 0x00000010"

subsection \<open>Pictures and their hardware descriptors\<close>

text \<open>
  \<^verbatim>\<open>VAPictureH264\<close>: the five fields the decoder writes (the reserved padding of the
  struct is written nowhere in this file and is left out).
\<close>

record VAPictureH264 =
  picture_id :: VASurfaceID
  frame_idx :: "32 word"
  flags :: "32 word"
  TopFieldOrderCnt :: "32 word"
  BottomFieldOrderCnt :: "32 word"

text \<open>
  Modelled from the spec: the output buffer and the accelerator's decode picture
  (\<^verbatim>\<open>GstVaDecodePicture\<close>, gstvadecoder.h), "a surface-backed picture handle bound to
  an output buffer" with a "query surface handle for a picture". A buffer is its address
  and the surface that backs it; a pointer that may be null is an \<open>option\<close>.
\<close>

record GstBuffer =
  buffer_addr :: nat
  buffer_surface :: VASurfaceID

record GstVaDecodePicture =
  gstbuffer :: GstBuffer

definition gst_va_decode_picture_new :: "GstBuffer option \<Rightarrow> GstVaDecodePicture option" where
  "gst_va_decode_picture_new buffer =
     (case buffer of None \<Rightarrow> None | Some b \<Rightarrow> Some \<lparr>gstbuffer = b\<rparr>)"

definition gst_va_decode_picture_get_surface :: "GstVaDecodePicture \<Rightarrow> VASurfaceID" where
  "gst_va_decode_picture_get_surface va_pic = buffer_surface (gstbuffer va_pic)"

text \<open>
  Modelled from the spec: the decoded picture of the codec library
  (\<^verbatim>\<open>GstH264Picture\<close>, gsth264picture.h): "picture-order-count(s) (top/bottom),
  frame_num / long_term_frame_idx, reference kind (none/short-term/long-term), field
  disposition (frame/top/bottom), an opaque handle to its hardware surface, and optional
  paired other field". The fields are those this file reads. A C enum variable can hold
  any integer: \<open>GST_H264_PICTURE_FIELD_OTHER\<close> stands for every value the \<^verbatim>\<open>switch\<close>
  of \<^verbatim>\<open>_fill_vaapi_pic\<close> sends to its \<^verbatim>\<open>default\<close> branch.
\<close>

datatype GstH264PictureReference =
  GST_H264_PICTURE_REF_NONE
  | GST_H264_PICTURE_REF_SHORT_TERM
  | GST_H264_PICTURE_REF_LONG_TERM

datatype GstH264PictureField =
  GST_H264_PICTURE_FIELD_FRAME
  | GST_H264_PICTURE_FIELD_TOP_FIELD
  | GST_H264_PICTURE_FIELD_BOTTOM_FIELD
  | GST_H264_PICTURE_FIELD_OTHER gint

datatype GstH264Picture = GstH264Picture
  (pic_order_cnt: gint)
  (frame_num: gint)
  (long_term_frame_idx: gint)
  (top_field_order_cnt: gint)
  (bottom_field_order_cnt: gint)
  (ref: GstH264PictureReference)
  (field: GstH264PictureField)
  (nal_ref_idc: gint)
  (buffer_flags: "32 word")
  (user_data: "GstVaDecodePicture option")
  (other_field: "GstH264Picture option")

definition gst_h264_picture_get_user_data :: "GstH264Picture \<Rightarrow> GstVaDecodePicture option" where
  "gst_h264_picture_get_user_data picture = user_data picture"

fun gst_h264_picture_set_user_data :: "GstH264Picture \<Rightarrow> GstVaDecodePicture option \<Rightarrow> GstH264Picture" where
  "gst_h264_picture_set_user_data (GstH264Picture poc fnum ltfi tfoc bfoc r f nri bf ud other) pic =
     GstH264Picture poc fnum ltfi tfoc bfoc r f nri bf pic other"

definition GST_H264_PICTURE_IS_SHORT_TERM_REF :: "GstH264Picture \<Rightarrow> bool" where
  "GST_H264_PICTURE_IS_SHORT_TERM_REF picture = (ref picture = GST_H264_PICTURE_REF_SHORT_TERM)"

definition GST_H264_PICTURE_IS_LONG_TERM_REF :: "GstH264Picture \<Rightarrow> bool" where
  "GST_H264_PICTURE_IS_LONG_TERM_REF picture = (ref picture = GST_H264_PICTURE_REF_LONG_TERM)"

definition GST_H264_PICTURE_IS_FRAME :: "GstH264Picture \<Rightarrow> bool" where
  "GST_H264_PICTURE_IS_FRAME picture = (field picture = GST_H264_PICTURE_FIELD_FRAME)"

text \<open>\<^verbatim>\<open>_init_vaapi_pic\<close>: the five assignments, on the descriptor passed by pointer.\<close>

definition init_vaapi_pic :: "VAPictureH264 \<Rightarrow> VAPictureH264" where
  "init_vaapi_pic va_picture =
     va_picture\<lparr>picture_id := VA_INVALID_ID,
                frame_idx := 0,
                flags := VA_PICTURE_H264_INVALID,
                TopFieldOrderCnt := 0,
                BottomFieldOrderCnt := 0\<rparr>"

text \<open>
  \<^verbatim>\<open>_fill_vaapi_pic\<close>, statement by statement: the early return for a picture with no
  decode picture attached, the surface and the cleared flags, the reference marking, and
  the \<^verbatim>\<open>switch\<close> on the field.
\<close>

definition fill_vaapi_pic_marking :: "VAPictureH264 \<Rightarrow> GstH264Picture \<Rightarrow> VAPictureH264" where
  "fill_vaapi_pic_marking va_picture picture =
     (if GST_H264_PICTURE_IS_LONG_TERM_REF picture then
        va_picture\<lparr>flags := flags va_picture OR VA_PICTURE_H264_LONG_TERM_REFERENCE,
                   frame_idx := long_term_frame_idx picture\<rparr>
      else
        (let v = (if GST_H264_PICTURE_IS_SHORT_TERM_REF picture
                  then va_picture\<lparr>flags := flags va_picture OR VA_PICTURE_H264_SHORT_TERM_REFERENCE\<rparr>
                  else va_picture)
         in v\<lparr>frame_idx := frame_num picture\<rparr>))"

definition fill_vaapi_pic_field :: "VAPictureH264 \<Rightarrow> GstH264Picture \<Rightarrow> bool \<Rightarrow> VAPictureH264" where
  "fill_vaapi_pic_field va_picture picture merge_other_field =
     (case field picture of
        GST_H264_PICTURE_FIELD_FRAME \<Rightarrow>
          va_picture\<lparr>TopFieldOrderCnt := top_field_order_cnt picture,
                     BottomFieldOrderCnt := bottom_field_order_cnt picture\<rparr>
      | GST_H264_PICTURE_FIELD_TOP_FIELD \<Rightarrow>
          (let v = (case (merge_other_field, other_field picture) of
                      (True, Some other) \<Rightarrow>
                        va_picture\<lparr>BottomFieldOrderCnt := bottom_field_order_cnt other\<rparr>
                    | _ \<Rightarrow>
                        va_picture\<lparr>flags := flags va_picture OR VA_PICTURE_H264_TOP_FIELD,
                                   BottomFieldOrderCnt := 0\<rparr>)
           in v\<lparr>TopFieldOrderCnt := top_field_order_cnt picture\<rparr>)
      | GST_H264_PICTURE_FIELD_BOTTOM_FIELD \<Rightarrow>
          (let v = (case (merge_other_field, other_field picture) of
                      (True, Some other) \<Rightarrow>
                        va_picture\<lparr>TopFieldOrderCnt := top_field_order_cnt other\<rparr>
                    | _ \<Rightarrow>
                        va_picture\<lparr>flags := flags va_picture OR VA_PICTURE_H264_BOTTOM_FIELD,
                                   TopFieldOrderCnt := 0\<rparr>)
           in v\<lparr>BottomFieldOrderCnt := bottom_field_order_cnt picture\<rparr>)
      | GST_H264_PICTURE_FIELD_OTHER _ \<Rightarrow>
          va_picture\<lparr>TopFieldOrderCnt := 0, BottomFieldOrderCnt := 0\<rparr>)"

definition fill_vaapi_pic :: "VAPictureH264 \<Rightarrow> GstH264Picture \<Rightarrow> bool \<Rightarrow> VAPictureH264" where
  "fill_vaapi_pic va_picture picture merge_other_field =
     (case gst_h264_picture_get_user_data picture of
        None \<Rightarrow> init_vaapi_pic va_picture
      | Some va_pic \<Rightarrow>
          fill_vaapi_pic_field
            (fill_vaapi_pic_marking
               (va_picture\<lparr>picture_id := gst_va_decode_picture_get_surface va_pic, flags := 0\<rparr>)
               picture)
            picture merge_other_field)"

text \<open>
  \<^verbatim>\<open>_fill_ref_pic_list\<close>: the first loop runs over the entries of the reference list (a
  null entry is \<open>None\<close>) and writes slot \<open>i\<close>, the second fills the slots up to 32.
  The array has 32 slots: with a longer list the first loop writes past its end.
\<close>

definition fill_ref_pic_list_entry ::
  "GstH264Picture option list \<Rightarrow> GstH264Picture \<Rightarrow> nat \<Rightarrow> VAPictureH264 list \<Rightarrow> VAPictureH264 list" where
  "fill_ref_pic_list_entry reflist current_picture i va_reflist =
     (case reflist ! i of
        Some picture \<Rightarrow>
          va_reflist[i := fill_vaapi_pic (va_reflist ! i) picture
                            (GST_H264_PICTURE_IS_FRAME current_picture)]
      | None \<Rightarrow> va_reflist[i := init_vaapi_pic (va_reflist ! i)])"

definition fill_ref_pic_list ::
  "VAPictureH264 list \<Rightarrow> GstH264Picture option list \<Rightarrow> GstH264Picture \<Rightarrow> VAPictureH264 list option" where
  "fill_ref_pic_list va_reflist reflist current_picture =
     (if 32 < length reflist then None
      else
        (let filled = fold (fill_ref_pic_list_entry reflist current_picture)
                        [0..<length reflist] va_reflist
         in Some (fold (\<lambda>i l. l[i := init_vaapi_pic (l ! i)])
                    [length reflist..<32] filled)))"

subsection \<open>Sequence, picture and slice syntax elements\<close>

text \<open>
  Modelled from the spec: the parsed syntax structures of the codec parser library
  (\<^verbatim>\<open>GstH264SPS\<close>, \<^verbatim>\<open>GstH264PPS\<close>, \<^verbatim>\<open>GstH264PredWeightTable\<close>,
  \<^verbatim>\<open>GstH264SliceHdr\<close>, \<^verbatim>\<open>GstH264NalUnit\<close>, gsth264parser.h), "consumed as an
  already-correct input". Each record has the fields this file reads, under the field's
  name with the struct's prefix (\<open>sps_\<close>, \<open>pps_\<close>, \<open>pwt_\<close>, \<open>hdr_\<close>, \<open>nalu_\<close>), since
  the hardware parameter blocks use the same names. The pointers \<^verbatim>\<open>header->pps\<close> and
  \<^verbatim>\<open>pps->sequence\<close> are the nested records.
\<close>

record GstH264SPS =
  sps_profile_idc :: guint8
  sps_constraint_set0_flag :: guint8
  sps_constraint_set1_flag :: guint8
  sps_constraint_set2_flag :: guint8
  sps_level_idc :: guint8
  sps_chroma_format_idc :: guint8
  sps_separate_colour_plane_flag :: guint8
  sps_bit_depth_luma_minus8 :: guint8
  sps_bit_depth_chroma_minus8 :: guint8
  sps_log2_max_frame_num_minus4 :: guint8
  sps_pic_order_cnt_type :: guint8
  sps_log2_max_pic_order_cnt_lsb_minus4 :: guint8
  sps_delta_pic_order_always_zero_flag :: guint8
  sps_num_ref_frames :: guint
  sps_gaps_in_frame_num_value_allowed_flag :: guint8
  sps_pic_width_in_mbs_minus1 :: guint
  sps_pic_height_in_map_units_minus1 :: guint
  sps_frame_mbs_only_flag :: guint8
  sps_mb_adaptive_frame_field_flag :: guint8
  sps_direct_8x8_inference_flag :: guint8
  sps_frame_cropping_flag :: guint8
  sps_chroma_array_type :: guint8
  sps_width :: gint
  sps_height :: gint
  sps_crop_rect_width :: gint
  sps_crop_rect_height :: gint
  sps_crop_rect_x :: gint
  sps_crop_rect_y :: gint
  sps_extension_type :: guint8
  sps_mvc_num_views_minus1 :: guint16

record GstH264PPS =
  pps_sequence :: GstH264SPS
  pps_entropy_coding_mode_flag :: guint8
  pps_pic_order_present_flag :: guint8
  pps_weighted_pred_flag :: guint8
  pps_weighted_bipred_idc :: guint8
  pps_pic_init_qp_minus26 :: "8 word"
  pps_pic_init_qs_minus26 :: "8 word"
  pps_chroma_qp_index_offset :: "8 word"
  pps_second_chroma_qp_index_offset :: "8 word"
  pps_deblocking_filter_control_present_flag :: guint8
  pps_constrained_intra_pred_flag :: guint8
  pps_redundant_pic_cnt_present_flag :: guint8
  pps_transform_8x8_mode_flag :: guint8
  pps_scaling_lists_4x4 :: "guint8 list list"
  pps_scaling_lists_8x8 :: "guint8 list list"

record GstH264PredWeightTable =
  pwt_luma_log2_weight_denom :: guint8
  pwt_chroma_log2_weight_denom :: guint8
  pwt_luma_weight_l0 :: "16 word list"
  pwt_luma_offset_l0 :: "8 word list"
  pwt_chroma_weight_l0 :: "16 word list list"
  pwt_chroma_offset_l0 :: "8 word list list"
  pwt_luma_weight_l1 :: "16 word list"
  pwt_luma_offset_l1 :: "8 word list"
  pwt_chroma_weight_l1 :: "16 word list list"
  pwt_chroma_offset_l1 :: "8 word list list"

record GstH264SliceHdr =
  hdr_first_mb_in_slice :: guint
  hdr_type :: guint
  hdr_pps :: GstH264PPS
  hdr_frame_num :: guint16
  hdr_field_pic_flag :: guint8
  hdr_direct_spatial_mv_pred_flag :: guint8
  hdr_num_ref_idx_l0_active_minus1 :: guint8
  hdr_num_ref_idx_l1_active_minus1 :: guint8
  hdr_pred_weight_table :: GstH264PredWeightTable
  hdr_cabac_init_idc :: guint8
  hdr_slice_qp_delta :: "8 word"
  hdr_disable_deblocking_filter_idc :: guint8
  hdr_slice_alpha_c0_offset_div2 :: "8 word"
  hdr_slice_beta_offset_div2 :: "8 word"
  hdr_header_size :: guint
  hdr_n_emulation_prevention_bytes :: guint

record GstH264NalUnit =
  nalu_size :: guint
  nalu_offset :: guint
  nalu_header_bytes :: guint8
  nalu_data :: nat

record GstH264Slice =
  slice_header :: GstH264SliceHdr
  slice_nalu :: GstH264NalUnit

text \<open>
  Modelled from the spec: the slice-type tests of gsth264parser.h. "Slice type is header
  type modulo 5 (maps extended slice-type codes 5-9 onto base types 0-4)"; the base types
  of the standard are P = 0, B = 1, I = 2, SP = 3, SI = 4.
\<close>

definition GST_H264_P_SLICE :: guint where
  "GST_H264_P_SLICE = 0"

definition GST_H264_B_SLICE :: guint where
  "GST_H264_B_SLICE = 1"

definition GST_H264_SP_SLICE :: guint where
  "GST_H264_SP_SLICE = 3"

definition GST_H264_IS_P_SLICE :: "GstH264SliceHdr \<Rightarrow> bool" where
  "GST_H264_IS_P_SLICE header = (hdr_type header mod 5 = GST_H264_P_SLICE)"

definition GST_H264_IS_B_SLICE :: "GstH264SliceHdr \<Rightarrow> bool" where
  "GST_H264_IS_B_SLICE header = (hdr_type header mod 5 = GST_H264_B_SLICE)"

definition GST_H264_IS_SP_SLICE :: "GstH264SliceHdr \<Rightarrow> bool" where
  "GST_H264_IS_SP_SLICE header = (hdr_type header mod 5 = GST_H264_SP_SLICE)"

subsection \<open>The slice parameter block\<close>

text \<open>
  \<^verbatim>\<open>VASliceParameterBufferH264\<close> of va.h, with the widths of its fields: the bit offset
  and the first macroblock are 16 bits wide, the weights and offsets are \<^verbatim>\<open>int16_t\<close>
  arrays of 32 entries (of 32 pairs for chroma).
\<close>

record VASliceParameterBufferH264 =
  slice_data_size :: "32 word"
  slice_data_offset :: "32 word"
  slice_data_flag :: "32 word"
  slice_data_bit_offset :: "16 word"
  first_mb_in_slice :: "16 word"
  slice_type :: "8 word"
  direct_spatial_mv_pred_flag :: "8 word"
  num_ref_idx_l0_active_minus1 :: "8 word"
  num_ref_idx_l1_active_minus1 :: "8 word"
  cabac_init_idc :: "8 word"
  slice_qp_delta :: "8 word"
  disable_deblocking_filter_idc :: "8 word"
  slice_alpha_c0_offset_div2 :: "8 word"
  slice_beta_offset_div2 :: "8 word"
  RefPicList0 :: "VAPictureH264 list"
  RefPicList1 :: "VAPictureH264 list"
  luma_log2_weight_denom :: "8 word"
  chroma_log2_weight_denom :: "8 word"
  luma_weight_l0_flag :: "8 word"
  luma_weight_l0 :: "16 word list"
  luma_offset_l0 :: "16 word list"
  chroma_weight_l0_flag :: "8 word"
  chroma_weight_l0 :: "16 word list list"
  chroma_offset_l0 :: "16 word list list"
  luma_weight_l1_flag :: "8 word"
  luma_weight_l1 :: "16 word list"
  luma_offset_l1 :: "16 word list"
  chroma_weight_l1_flag :: "8 word"
  chroma_weight_l1 :: "16 word list list"
  chroma_offset_l1 :: "16 word list list"

definition VA_SLICE_DATA_FLAG_ALL :: "32 word" where
  "VA_SLICE_DATA_FLAG_ALL = 0x00"

text \<open>
  \<^verbatim>\<open>_fill_pred_weight_table\<close>. The loops run over \<open>i = 0 .. num_ref_idx_lX_active_minus1\<close>
  (inclusive) and, for chroma, \<open>j = 0, 1\<close>; an \<^verbatim>\<open>int8_t\<close> offset of the header is sign
  extended into the \<^verbatim>\<open>int16_t\<close> of the block. The arrays on both sides have 32 entries:
  an index of 32 or more reads and writes past their end (\<open>None\<close>).
\<close>

definition num_weight_tables :: "GstH264SliceHdr \<Rightarrow> nat" where
  "num_weight_tables header =
     (if pps_weighted_pred_flag (hdr_pps header) \<noteq> 0
         \<and> (GST_H264_IS_P_SLICE header \<or> GST_H264_IS_SP_SLICE header) then 1
      else if pps_weighted_bipred_idc (hdr_pps header) = 1 \<and> GST_H264_IS_B_SLICE header then 2
      else 0)"

definition fill_luma_l0 :: "GstH264PredWeightTable \<Rightarrow> nat \<Rightarrow> VASliceParameterBufferH264 \<Rightarrow> VASliceParameterBufferH264" where
  "fill_luma_l0 t i slice_param =
     slice_param\<lparr>luma_weight_l0 := (luma_weight_l0 slice_param)[i := pwt_luma_weight_l0 t ! i],
                 luma_offset_l0 := (luma_offset_l0 slice_param)[i := scast (pwt_luma_offset_l0 t ! i)]\<rparr>"

definition fill_chroma_l0 :: "GstH264PredWeightTable \<Rightarrow> nat \<Rightarrow> VASliceParameterBufferH264 \<Rightarrow> VASliceParameterBufferH264" where
  "fill_chroma_l0 t i slice_param =
     fold (\<lambda>j sp.
        sp\<lparr>chroma_weight_l0 := (chroma_weight_l0 sp)[i := (chroma_weight_l0 sp ! i)[j := pwt_chroma_weight_l0 t ! i ! j]],
           chroma_offset_l0 := (chroma_offset_l0 sp)[i := (chroma_offset_l0 sp ! i)[j := scast (pwt_chroma_offset_l0 t ! i ! j)]]\<rparr>)
       [0..<2] slice_param"

definition fill_luma_l1 :: "GstH264PredWeightTable \<Rightarrow> nat \<Rightarrow> VASliceParameterBufferH264 \<Rightarrow> VASliceParameterBufferH264" where
  "fill_luma_l1 t i slice_param =
     slice_param\<lparr>luma_weight_l1 := (luma_weight_l1 slice_param)[i := pwt_luma_weight_l1 t ! i],
                 luma_offset_l1 := (luma_offset_l1 slice_param)[i := scast (pwt_luma_offset_l1 t ! i)]\<rparr>"

definition fill_chroma_l1 :: "GstH264PredWeightTable \<Rightarrow> nat \<Rightarrow> VASliceParameterBufferH264 \<Rightarrow> VASliceParameterBufferH264" where
  "fill_chroma_l1 t i slice_param =
     fold (\<lambda>j sp.
        sp\<lparr>chroma_weight_l1 := (chroma_weight_l1 sp)[i := (chroma_weight_l1 sp ! i)[j := pwt_chroma_weight_l1 t ! i ! j]],
           chroma_offset_l1 := (chroma_offset_l1 sp)[i := (chroma_offset_l1 sp ! i)[j := scast (pwt_chroma_offset_l1 t ! i ! j)]]\<rparr>)
       [0..<2] slice_param"

definition fill_pred_weight_table_l0 :: "GstH264SliceHdr \<Rightarrow> VASliceParameterBufferH264 \<Rightarrow> VASliceParameterBufferH264" where
  "fill_pred_weight_table_l0 header slice_param =
     (let t = hdr_pred_weight_table header;
          n = unat (num_ref_idx_l0_active_minus1 slice_param);
          sp1 = slice_param\<lparr>luma_log2_weight_denom := pwt_luma_log2_weight_denom t,
                            chroma_log2_weight_denom := pwt_chroma_log2_weight_denom t\<rparr>;
          sp2 = fold (fill_luma_l0 t) [0..<Suc n] (sp1\<lparr>luma_weight_l0_flag := 1\<rparr>);
          sp3 = sp2\<lparr>chroma_weight_l0_flag :=
                       (if sps_chroma_array_type (pps_sequence (hdr_pps header)) \<noteq> 0 then 1 else 0)\<rparr>
      in if chroma_weight_l0_flag sp3 \<noteq> 0 then fold (fill_chroma_l0 t) [0..<Suc n] sp3 else sp3)"

definition fill_pred_weight_table_l1 :: "GstH264SliceHdr \<Rightarrow> VASliceParameterBufferH264 \<Rightarrow> VASliceParameterBufferH264" where
  "fill_pred_weight_table_l1 header slice_param =
     (let t = hdr_pred_weight_table header;
          n = unat (num_ref_idx_l1_active_minus1 slice_param);
          sp2 = fold (fill_luma_l1 t) [0..<Suc n] (slice_param\<lparr>luma_weight_l1_flag := 1\<rparr>);
          sp3 = sp2\<lparr>chroma_weight_l1_flag :=
                       (if sps_chroma_array_type (pps_sequence (hdr_pps header)) \<noteq> 0 then 1 else 0)\<rparr>
      in if chroma_weight_l1_flag sp3 \<noteq> 0 then fold (fill_chroma_l1 t) [0..<Suc n] sp3 else sp3)"

definition fill_pred_weight_table :: "GstH264SliceHdr \<Rightarrow> VASliceParameterBufferH264 \<Rightarrow> VASliceParameterBufferH264 option" where
  "fill_pred_weight_table header slice_param =
     (if num_weight_tables header = 0 then Some slice_param
      else if 32 \<le> unat (num_ref_idx_l0_active_minus1 slice_param) then None
      else
        (let sp = fill_pred_weight_table_l0 header slice_param
         in if num_weight_tables header = 1 then Some sp
            else if 32 \<le> unat (num_ref_idx_l1_active_minus1 sp) then None
            else Some (fill_pred_weight_table_l1 header sp)))"

text \<open>\<^verbatim>\<open>_get_slice_data_bit_offset\<close>: \<^verbatim>\<open>guint\<close> arithmetic, modulo \<open>2 ^ 32\<close>.\<close>

definition get_slice_data_bit_offset :: "GstH264SliceHdr \<Rightarrow> guint \<Rightarrow> guint" where
  "get_slice_data_bit_offset header nal_header_bytes =
     (let epb_count = hdr_n_emulation_prevention_bytes header
      in 8 * nal_header_bytes + hdr_header_size header - epb_count * 8)"


subsection \<open>The session, the backend and the log of calls\<close>

type_synonym GstFlowReturn = "32 word"

definition GST_FLOW_OK :: GstFlowReturn where
  "GST_FLOW_OK = 0"

definition GST_FLOW_ERROR :: GstFlowReturn where
  "GST_FLOW_ERROR = - 5"

record GstVideoCodecFrame =
  system_frame_number :: "32 word"
  output_buffer :: "GstBuffer option"

datatype VAProfile =
  VAProfileNone
  | VAProfileH264Main
  | VAProfileH264High
  | VAProfileH264ConstrainedBaseline
  | VAProfileH264MultiviewHigh
  | VAProfileH264StereoHigh

record GstVideoAlignment =
  padding_top :: guint
  padding_bottom :: guint
  padding_left :: guint
  padding_right :: guint

text \<open>
  The decoder instance: the fields of the parent \<^verbatim>\<open>GstVaBaseDec\<close> that this file reads
  or writes, extended by the fields of \<^verbatim>\<open>struct _GstVaH264Dec\<close>. (\<^verbatim>\<open>ref_list\<close> is a
  scratch array that \<^verbatim>\<open>start_picture\<close> empties before and after each use; it is a
  local value of the model.)
\<close>

record GstVaBaseDec =
  profile :: VAProfile
  rt_format :: guint
  width :: gint
  height :: gint
  need_valign :: bool
  valign :: GstVideoAlignment
  min_buffers :: guint
  copy_frames :: bool

record GstVaH264Dec = GstVaBaseDec +
  last_ret :: GstFlowReturn
  coded_width :: gint
  coded_height :: gint
  dpb_size :: gint
  need_negotiation :: bool
  interlaced :: bool

text \<open>
  \<^verbatim>\<open>VAPictureParameterBufferH264\<close> and \<^verbatim>\<open>VAIQMatrixBufferH264\<close> of va.h; a bit-field of
  \<open>n\<close> bits is an \<open>n word\<close>. The matrix buffer is declared with six 4x4 lists
  (\<^verbatim>\<open>ScalingList4x4[6][16]\<close>) and two 8x8 lists (\<^verbatim>\<open>ScalingList8x8[2][64]\<close>).
\<close>

record VAPictureParameterBufferH264 =
  CurrPic :: VAPictureH264
  ReferenceFrames :: "VAPictureH264 list"
  picture_width_in_mbs_minus1 :: "16 word"
  picture_height_in_mbs_minus1 :: "16 word"
  bit_depth_luma_minus8 :: "8 word"
  bit_depth_chroma_minus8 :: "8 word"
  num_ref_frames :: "8 word"
  seq_chroma_format_idc :: "2 word"
  seq_residual_colour_transform_flag :: "1 word"
  seq_gaps_in_frame_num_value_allowed_flag :: "1 word"
  seq_frame_mbs_only_flag :: "1 word"
  seq_mb_adaptive_frame_field_flag :: "1 word"
  seq_direct_8x8_inference_flag :: "1 word"
  seq_MinLumaBiPredSize8x8 :: "1 word"
  seq_log2_max_frame_num_minus4 :: "4 word"
  seq_pic_order_cnt_type :: "2 word"
  seq_log2_max_pic_order_cnt_lsb_minus4 :: "4 word"
  seq_delta_pic_order_always_zero_flag :: "1 word"
  pic_init_qp_minus26 :: "8 word"
  pic_init_qs_minus26 :: "8 word"
  chroma_qp_index_offset :: "8 word"
  second_chroma_qp_index_offset :: "8 word"
  pic_entropy_coding_mode_flag :: "1 word"
  pic_weighted_pred_flag :: "1 word"
  pic_weighted_bipred_idc :: "2 word"
  pic_transform_8x8_mode_flag :: "1 word"
  pic_field_pic_flag :: "1 word"
  pic_constrained_intra_pred_flag :: "1 word"
  pic_pic_order_present_flag :: "1 word"
  pic_deblocking_filter_control_present_flag :: "1 word"
  pic_redundant_pic_cnt_present_flag :: "1 word"
  pic_reference_pic_flag :: "1 word"
  pic_param_frame_num :: "16 word"

record VAIQMatrixBufferH264 =
  ScalingList4x4 :: "8 word list list"
  ScalingList8x8 :: "8 word list list"

datatype va_param_buffer =
  VAPictureParameterBuffer VAPictureParameterBufferH264
  | VAIQMatrixBuffer VAIQMatrixBufferH264

text \<open>
  The calls that leave this file, in the order they are made. What a call answers is a
  field of \<open>backend\<close>: the base video decoder (allocate, finish, negotiate), the
  accelerator (\<^verbatim>\<open>gst_va_decoder_*\<close>), the decoded picture buffer's two queries and the
  parser library's zig-zag conversions. A theorem that holds for every \<open>backend\<close> holds
  whatever these collaborators answer.
\<close>

datatype call =
  Call_allocate_output_frame GstVideoCodecFrame
  | Call_decode_picture_new "GstBuffer option"
  | Call_picture_unref GstH264Picture
  | Call_drop_frame GstVideoCodecFrame
  | Call_finish_frame GstVideoCodecFrame
  | Call_copy_output_buffer GstVideoCodecFrame
  | Call_buffer_flag_set "GstBuffer option" "32 word"
  | Call_add_param_buffer "GstVaDecodePicture option" va_param_buffer
  | Call_add_slice_buffer "GstVaDecodePicture option" VASliceParameterBufferH264 nat guint
  | Call_decode "GstVaDecodePicture option"
  | Call_negotiate

record GstH264Dpb =
  dpb_pictures_short_term_ref :: "bool \<Rightarrow> bool \<Rightarrow> GstH264Picture list"
  dpb_pictures_long_term_ref :: "bool \<Rightarrow> GstH264Picture list"

record backend =
  video_decoder_allocate_output_frame :: "GstVideoCodecFrame \<Rightarrow> GstFlowReturn \<times> GstVideoCodecFrame"
  video_decoder_finish_frame :: "GstVideoCodecFrame \<Rightarrow> GstFlowReturn"
  video_decoder_negotiate :: "GstVaH264Dec \<Rightarrow> bool \<times> GstVaH264Dec"
  va_decoder_has_profile :: "VAProfile \<Rightarrow> bool"
  va_decoder_config_is_equal :: "VAProfile \<Rightarrow> guint \<Rightarrow> gint \<Rightarrow> gint \<Rightarrow> bool"
  va_decoder_add_param_buffer :: "GstVaDecodePicture option \<Rightarrow> va_param_buffer \<Rightarrow> bool"
  va_decoder_add_slice_buffer ::
    "GstVaDecodePicture option \<Rightarrow> VASliceParameterBufferH264 \<Rightarrow> nat \<Rightarrow> guint \<Rightarrow> bool"
  va_decoder_decode :: "GstVaDecodePicture option \<Rightarrow> bool"
  quant_matrix_4x4_get_raster_from_zigzag :: "guint8 list \<Rightarrow> guint8 list"
  quant_matrix_8x8_get_raster_from_zigzag :: "guint8 list \<Rightarrow> guint8 list"

subsection \<open>The picture callbacks\<close>

definition gst_va_h264_dec_end_picture :: "backend \<Rightarrow> GstH264Picture \<Rightarrow> bool \<times> call list" where
  "gst_va_h264_dec_end_picture b picture =
     (let va_pic = gst_h264_picture_get_user_data picture
      in (va_decoder_decode b va_pic, [Call_decode va_pic]))"



text \<open>
  \<^verbatim>\<open>gst_va_h264_dec_new_field_picture\<close>: the result is the boolean returned, the second
  field after the call, and the calls made.
\<close>

definition gst_va_h264_dec_new_field_picture ::
  "backend \<Rightarrow> GstH264Picture \<Rightarrow> GstH264Picture \<Rightarrow> bool \<times> GstH264Picture \<times> call list" where
  "gst_va_h264_dec_new_field_picture b first_field second_field =
     (case gst_h264_picture_get_user_data first_field of
        None \<Rightarrow> (False, second_field, [])
      | Some first_pic \<Rightarrow>
          (let second_pic = gst_va_decode_picture_new (Some (gstbuffer first_pic))
           in (True, gst_h264_picture_set_user_data second_field second_pic,
               [Call_decode_picture_new (Some (gstbuffer first_pic))])))"


subsection \<open>Slices\<close>

text \<open>
  \<^verbatim>\<open>gst_va_h264_dec_decode_slice\<close>. The compound literal sets the named fields and
  zeroes the rest (among them both reference lists and the weight tables); an assignment
  to a narrower field keeps the low bits (\<open>ucast\<close>). Then the two reference lists and the
  weight table are filled and the block is handed to the accelerator with the slice's
  bytes. The result is \<open>None\<close> where a filler writes past an array.
\<close>

definition zero_vaapi_pic :: VAPictureH264 where
  "zero_vaapi_pic =
     \<lparr>picture_id = 0, frame_idx = 0, flags = 0, TopFieldOrderCnt = 0, BottomFieldOrderCnt = 0\<rparr>"

definition decode_slice_init :: "GstH264SliceHdr \<Rightarrow> GstH264NalUnit \<Rightarrow> VASliceParameterBufferH264" where
  "decode_slice_init header nalu =
     \<lparr>slice_data_size = nalu_size nalu,
      slice_data_offset = 0,
      slice_data_flag = VA_SLICE_DATA_FLAG_ALL,
      slice_data_bit_offset =
        ucast (get_slice_data_bit_offset header (ucast (nalu_header_bytes nalu))),
      first_mb_in_slice = ucast (hdr_first_mb_in_slice header),
      slice_type = ucast (hdr_type header mod 5),
      direct_spatial_mv_pred_flag = hdr_direct_spatial_mv_pred_flag header,
      num_ref_idx_l0_active_minus1 = hdr_num_ref_idx_l0_active_minus1 header,
      num_ref_idx_l1_active_minus1 = hdr_num_ref_idx_l1_active_minus1 header,
      cabac_init_idc = hdr_cabac_init_idc header,
      slice_qp_delta = hdr_slice_qp_delta header,
      disable_deblocking_filter_idc = hdr_disable_deblocking_filter_idc header,
      slice_alpha_c0_offset_div2 = hdr_slice_alpha_c0_offset_div2 header,
      slice_beta_offset_div2 = hdr_slice_beta_offset_div2 header,
      RefPicList0 = replicate 32 zero_vaapi_pic,
      RefPicList1 = replicate 32 zero_vaapi_pic,
      luma_log2_weight_denom = 0,
      chroma_log2_weight_denom = 0,
      luma_weight_l0_flag = 0,
      luma_weight_l0 = replicate 32 0,
      luma_offset_l0 = replicate 32 0,
      chroma_weight_l0_flag = 0,
      chroma_weight_l0 = replicate 32 [0, 0],
      chroma_offset_l0 = replicate 32 [0, 0],
      luma_weight_l1_flag = 0,
      luma_weight_l1 = replicate 32 0,
      luma_offset_l1 = replicate 32 0,
      chroma_weight_l1_flag = 0,
      chroma_weight_l1 = replicate 32 [0, 0],
      chroma_offset_l1 = replicate 32 [0, 0]\<rparr>"

definition decode_slice_param ::
  "GstH264Picture \<Rightarrow> GstH264Slice \<Rightarrow> GstH264Picture option list \<Rightarrow> GstH264Picture option list
   \<Rightarrow> VASliceParameterBufferH264 option" where
  "decode_slice_param picture slc ref_pic_list0 ref_pic_list1 =
     (let header = slice_header slc;
          nalu = slice_nalu slc;
          slice_param = decode_slice_init header nalu
      in case fill_ref_pic_list (RefPicList0 slice_param) ref_pic_list0 picture of
           None \<Rightarrow> None
         | Some l0 \<Rightarrow>
             (case fill_ref_pic_list (RefPicList1 slice_param) ref_pic_list1 picture of
                None \<Rightarrow> None
              | Some l1 \<Rightarrow>
                  fill_pred_weight_table header
                    (slice_param\<lparr>RefPicList0 := l0, RefPicList1 := l1\<rparr>)))"

definition gst_va_h264_dec_decode_slice ::
  "backend \<Rightarrow> GstH264Picture \<Rightarrow> GstH264Slice \<Rightarrow> GstH264Picture option list
   \<Rightarrow> GstH264Picture option list \<Rightarrow> (bool \<times> call list) option" where
  "gst_va_h264_dec_decode_slice b picture slc ref_pic_list0 ref_pic_list1 =
     (case decode_slice_param picture slc ref_pic_list0 ref_pic_list1 of
        None \<Rightarrow> None
      | Some slice_param \<Rightarrow>
          (let va_pic = gst_h264_picture_get_user_data picture;
               nalu = slice_nalu slc;
               data = nalu_data nalu + unat (nalu_offset nalu)
           in Some (va_decoder_add_slice_buffer b va_pic slice_param data (nalu_size nalu),
                    [Call_add_slice_buffer va_pic slice_param data (nalu_size nalu)])))"

subsection \<open>Picture parameters\<close>

text \<open>
  The reference-frame block of \<^verbatim>\<open>gst_va_h264_dec_start_picture\<close>. Each of the two
  \<^verbatim>\<open>for\<close> loops walks a list the decoded picture buffer returned and stops when
  \<open>ref_frame_idx\<close> reaches 16; the last loop initialises the slots that are left.
\<close>

fun fill_reference_frames ::
  "GstH264Picture list \<Rightarrow> VAPictureH264 list \<times> nat \<Rightarrow> VAPictureH264 list \<times> nat" where
  "fill_reference_frames [] (frames, ref_frame_idx) = (frames, ref_frame_idx)"
| "fill_reference_frames (pic # ref_list) (frames, ref_frame_idx) =
     (if ref_frame_idx < 16 then
        fill_reference_frames ref_list
          (frames[ref_frame_idx := fill_vaapi_pic (frames ! ref_frame_idx) pic True],
           Suc ref_frame_idx)
      else (frames, ref_frame_idx))"

definition start_picture_reference_frames :: "GstH264Dpb \<Rightarrow> VAPictureH264 list \<Rightarrow> VAPictureH264 list" where
  "start_picture_reference_frames dpb frames =
     (let s0 = (frames, 0);
          s1 = fill_reference_frames (dpb_pictures_short_term_ref dpb False False) s0;
          s2 = fill_reference_frames (dpb_pictures_long_term_ref dpb False) s1
      in fold (\<lambda>i l. l[i := init_vaapi_pic (l ! i)]) [snd s2..<16] (fst s2))"

text \<open>
  \<^verbatim>\<open>gst_va_h264_dec_start_picture\<close>: the parameter block from the SPS, the PPS and the
  slice header, the current picture and the reference frames; then the scaling lists,
  six of 4x4 and \<open>n\<close> of 8x8, where \<open>n\<close> is 6 for \<open>chroma_format_idc = 3\<close> and 2
  otherwise. The 8x8 array of the matrix buffer has two slots, so the loop over six
  lists writes past its end: the matrix is \<open>None\<close> then, and so is the value
  \<^verbatim>\<open>start_picture\<close> returns, after the picture parameter buffer has been submitted and
  accepted. The second buffer is only submitted when the first was accepted. The result
  is the boolean returned (\<open>None\<close> as said) and the calls made.
\<close>

definition bool_bit :: "bool \<Rightarrow> 1 word" where
  "bool_bit c = (if c then 1 else 0)"

definition start_picture_pic_param ::
  "GstH264Picture \<Rightarrow> GstH264Slice \<Rightarrow> GstH264Dpb \<Rightarrow> VAPictureParameterBufferH264" where
  "start_picture_pic_param picture slc dpb =
     (let pps = hdr_pps (slice_header slc);
          sps = pps_sequence pps
      in \<lparr>CurrPic = fill_vaapi_pic zero_vaapi_pic picture False,
          ReferenceFrames = start_picture_reference_frames dpb (replicate 16 zero_vaapi_pic),
          picture_width_in_mbs_minus1 = ucast (sps_pic_width_in_mbs_minus1 sps),
          picture_height_in_mbs_minus1 =
            ucast (push_bit (if sps_frame_mbs_only_flag sps = 0 then 1 else 0)
                     (sps_pic_height_in_map_units_minus1 sps + 1) - 1),
          bit_depth_luma_minus8 = sps_bit_depth_luma_minus8 sps,
          bit_depth_chroma_minus8 = sps_bit_depth_chroma_minus8 sps,
          num_ref_frames = ucast (sps_num_ref_frames sps),
          seq_chroma_format_idc = ucast (sps_chroma_format_idc sps),
          seq_residual_colour_transform_flag = ucast (sps_separate_colour_plane_flag sps),
          seq_gaps_in_frame_num_value_allowed_flag =
            ucast (sps_gaps_in_frame_num_value_allowed_flag sps),
          seq_frame_mbs_only_flag = ucast (sps_frame_mbs_only_flag sps),
          seq_mb_adaptive_frame_field_flag = ucast (sps_mb_adaptive_frame_field_flag sps),
          seq_direct_8x8_inference_flag = ucast (sps_direct_8x8_inference_flag sps),
          seq_MinLumaBiPredSize8x8 = bool_bit (31 \<le> sps_level_idc sps),
          seq_log2_max_frame_num_minus4 = ucast (sps_log2_max_frame_num_minus4 sps),
          seq_pic_order_cnt_type = ucast (sps_pic_order_cnt_type sps),
          seq_log2_max_pic_order_cnt_lsb_minus4 =
            ucast (sps_log2_max_pic_order_cnt_lsb_minus4 sps),
          seq_delta_pic_order_always_zero_flag =
            ucast (sps_delta_pic_order_always_zero_flag sps),
          pic_init_qp_minus26 = pps_pic_init_qp_minus26 pps,
          pic_init_qs_minus26 = pps_pic_init_qs_minus26 pps,
          chroma_qp_index_offset = pps_chroma_qp_index_offset pps,
          second_chroma_qp_index_offset = pps_second_chroma_qp_index_offset pps,
          pic_entropy_coding_mode_flag = ucast (pps_entropy_coding_mode_flag pps),
          pic_weighted_pred_flag = ucast (pps_weighted_pred_flag pps),
          pic_weighted_bipred_idc = ucast (pps_weighted_bipred_idc pps),
          pic_transform_8x8_mode_flag = ucast (pps_transform_8x8_mode_flag pps),
          pic_field_pic_flag = ucast (hdr_field_pic_flag (slice_header slc)),
          pic_constrained_intra_pred_flag = ucast (pps_constrained_intra_pred_flag pps),
          pic_pic_order_present_flag = ucast (pps_pic_order_present_flag pps),
          pic_deblocking_filter_control_present_flag =
            ucast (pps_deblocking_filter_control_present_flag pps),
          pic_redundant_pic_cnt_present_flag = ucast (pps_redundant_pic_cnt_present_flag pps),
          pic_reference_pic_flag = bool_bit (nal_ref_idc picture \<noteq> 0),
          pic_param_frame_num = hdr_frame_num (slice_header slc)\<rparr>)"

definition start_picture_iq_matrix :: "backend \<Rightarrow> GstH264PPS \<Rightarrow> VAIQMatrixBufferH264 option" where
  "start_picture_iq_matrix b pps =
     (let iq0 = \<lparr>ScalingList4x4 = replicate 6 (replicate 16 0),
                 ScalingList8x8 = replicate 2 (replicate 64 0)\<rparr>;
          iq1 = fold (\<lambda>i iq. iq\<lparr>ScalingList4x4 := (ScalingList4x4 iq)
                         [i := quant_matrix_4x4_get_raster_from_zigzag b (pps_scaling_lists_4x4 pps ! i)]\<rparr>)
                  [0..<6] iq0;
          n = (if sps_chroma_format_idc (pps_sequence pps) = 3 then 6 else 2)
      in if length (ScalingList8x8 iq1) < n then None
         else Some (fold (\<lambda>i iq. iq\<lparr>ScalingList8x8 := (ScalingList8x8 iq)
                       [i := quant_matrix_8x8_get_raster_from_zigzag b (pps_scaling_lists_8x8 pps ! i)]\<rparr>)
                     [0..<n] iq1))"

definition gst_va_h264_dec_start_picture ::
  "backend \<Rightarrow> GstH264Picture \<Rightarrow> GstH264Slice \<Rightarrow> GstH264Dpb \<Rightarrow> bool option \<times> call list" where
  "gst_va_h264_dec_start_picture b picture slc dpb =
     (let va_pic = gst_h264_picture_get_user_data picture;
          pps = hdr_pps (slice_header slc);
          pic_param = VAPictureParameterBuffer (start_picture_pic_param picture slc dpb)
      in if \<not> va_decoder_add_param_buffer b va_pic pic_param then
           (Some False, [Call_add_param_buffer va_pic pic_param])
         else
           (case start_picture_iq_matrix b pps of
              None \<Rightarrow> (None, [Call_add_param_buffer va_pic pic_param])
            | Some iq \<Rightarrow>
                (let iq_matrix = VAIQMatrixBuffer iq
                 in (Some (va_decoder_add_param_buffer b va_pic iq_matrix),
                     [Call_add_param_buffer va_pic pic_param,
                      Call_add_param_buffer va_pic iq_matrix]))))"

subsection \<open>Sequences: profile and format\<close>

text \<open>
  Modelled from the spec: the profile numbers of gsth264parser.h (the \<open>profile_idc\<close>
  values of the standard) and the MVC extension type; the candidates are "Main, High,
  MultiviewHigh, StereoHigh", "Baseline", "Extended".
\<close>

definition GST_H264_PROFILE_BASELINE :: guint8 where
  "GST_H264_PROFILE_BASELINE = 66"

definition GST_H264_PROFILE_MAIN :: guint8 where
  "GST_H264_PROFILE_MAIN = 77"

definition GST_H264_PROFILE_EXTENDED :: guint8 where
  "GST_H264_PROFILE_EXTENDED = 88"

definition GST_H264_PROFILE_HIGH :: guint8 where
  "GST_H264_PROFILE_HIGH = 100"

definition GST_H264_PROFILE_MULTIVIEW_HIGH :: guint8 where
  "GST_H264_PROFILE_MULTIVIEW_HIGH = 118"

definition GST_H264_PROFILE_STEREO_HIGH :: guint8 where
  "GST_H264_PROFILE_STEREO_HIGH = 128"

definition GST_H264_NAL_EXTENSION_MVC :: guint8 where
  "GST_H264_NAL_EXTENSION_MVC = 2"

definition VA_RT_FORMAT_YUV420 :: guint where
  "VA_RT_FORMAT_YUV420 = 0x00000001"

definition VA_RT_FORMAT_YUV422 :: guint where
  "VA_RT_FORMAT_YUV422 = 0x00000002"

definition VA_RT_FORMAT_YUV444 :: guint where
  "VA_RT_FORMAT_YUV444 = 0x00000004"

definition VA_RT_FORMAT_YUV420_10 :: guint where
  "VA_RT_FORMAT_YUV420_10 = 0x00000100"

definition VA_RT_FORMAT_YUV422_10 :: guint where
  "VA_RT_FORMAT_YUV422_10 = 0x00000200"

definition VA_RT_FORMAT_YUV444_10 :: guint where
  "VA_RT_FORMAT_YUV444_10 = 0x00000400"

definition get_num_views :: "GstH264SPS \<Rightarrow> guint" where
  "get_num_views sps =
     1 + (if sps_extension_type sps = GST_H264_NAL_EXTENSION_MVC
          then ucast (sps_mvc_num_views_minus1 sps) else 0)"

definition get_rtformat :: "guint8 \<Rightarrow> guint8 \<Rightarrow> guint" where
  "get_rtformat bit_depth_luma chroma_format_idc =
     (if bit_depth_luma = 10 then
        (if chroma_format_idc = 3 then VA_RT_FORMAT_YUV444_10
         else if chroma_format_idc = 2 then VA_RT_FORMAT_YUV422_10
         else VA_RT_FORMAT_YUV420_10)
      else if bit_depth_luma = 8 then
        (if chroma_format_idc = 3 then VA_RT_FORMAT_YUV444
         else if chroma_format_idc = 2 then VA_RT_FORMAT_YUV422
         else VA_RT_FORMAT_YUV420)
      else 0)"

definition profile_map :: "(guint8 \<times> VAProfile) list" where
  "profile_map =
     [(GST_H264_PROFILE_MAIN, VAProfileH264Main),
      (GST_H264_PROFILE_HIGH, VAProfileH264High),
      (GST_H264_PROFILE_MULTIVIEW_HIGH, VAProfileH264MultiviewHigh),
      (GST_H264_PROFILE_STEREO_HIGH, VAProfileH264StereoHigh)]"

text \<open>
  \<^verbatim>\<open>_get_profile\<close>. The local array \<^verbatim>\<open>profiles[4]\<close> and its fill index \<open>i\<close> are a pair;
  \<^verbatim>\<open>profiles[i++] = p\<close> is \<open>profiles_push\<close>. The array starts uninitialised (here: filled
  with \<open>VAProfileNone\<close>); only slots below \<open>i\<close> are read.
\<close>

definition profiles_push :: "VAProfile \<Rightarrow> VAProfile list \<times> nat \<Rightarrow> VAProfile list \<times> nat" where
  "profiles_push p s = ((fst s)[snd s := p], Suc (snd s))"

fun get_profile_map_loop ::
  "(guint8 \<times> VAProfile) list \<Rightarrow> guint8 \<Rightarrow> VAProfile list \<times> nat \<Rightarrow> VAProfile list \<times> nat" where
  "get_profile_map_loop [] profile_idc s = s"
| "get_profile_map_loop ((idc, va_profile) # rest) profile_idc s =
     (if idc = profile_idc then profiles_push va_profile s
      else get_profile_map_loop rest profile_idc s)"

definition get_profile_switch ::
  "GstH264SPS \<Rightarrow> gint \<Rightarrow> VAProfile list \<times> nat \<Rightarrow> VAProfile list \<times> nat" where
  "get_profile_switch sps max_dpb_size s =
     (if sps_profile_idc sps = GST_H264_PROFILE_BASELINE then
        (if sps_constraint_set0_flag sps \<noteq> 0 \<or> sps_constraint_set1_flag sps \<noteq> 0
            \<or> sps_constraint_set2_flag sps \<noteq> 0
         then profiles_push VAProfileH264Main (profiles_push VAProfileH264ConstrainedBaseline s)
         else s)
      else if sps_profile_idc sps = GST_H264_PROFILE_EXTENDED then
        (if sps_constraint_set1_flag sps \<noteq> 0 then profiles_push VAProfileH264Main s else s)
      else if sps_profile_idc sps = GST_H264_PROFILE_MULTIVIEW_HIGH then
        (let s1 = (if get_num_views sps = 2 then profiles_push VAProfileH264StereoHigh s else s)
         in if max_dpb_size \<le>s 16 then profiles_push VAProfileH264MultiviewHigh s1 else s1)
      else s)"

fun get_profile_has_loop :: "backend \<Rightarrow> VAProfile list \<Rightarrow> nat list \<Rightarrow> VAProfile" where
  "get_profile_has_loop b profiles [] = VAProfileNone"
| "get_profile_has_loop b profiles (j # js) =
     (if va_decoder_has_profile b (profiles ! j) then profiles ! j
      else get_profile_has_loop b profiles js)"

definition get_profile :: "backend \<Rightarrow> GstH264SPS \<Rightarrow> gint \<Rightarrow> VAProfile" where
  "get_profile b sps max_dpb_size =
     (let s = get_profile_switch sps max_dpb_size
                (get_profile_map_loop profile_map (sps_profile_idc sps)
                   (replicate 4 VAProfileNone, 0))
      in get_profile_has_loop b (fst s) [0..<min (snd s) 4])"

text \<open>
  \<^verbatim>\<open>gst_va_h264_dec_new_sequence\<close>: the result is the boolean returned, the decoder
  instance after the call, and the calls made. \<open>gint\<close> comparisons are signed.
\<close>

definition new_sequence_valign :: "GstVaH264Dec \<Rightarrow> GstVideoAlignment \<Rightarrow> bool \<Rightarrow> GstVaH264Dec \<times> bool" where
  "new_sequence_valign self padding negotiation_needed =
     (let self1 = self\<lparr>need_valign := (width self <s coded_width self \<or> height self <s coded_height self)\<rparr>
      in if need_valign self1 then
           (self1\<lparr>valign := padding\<rparr>,
            negotiation_needed
            \<or> padding_left (valign self1) \<noteq> padding_left padding
            \<or> padding_right (valign self1) \<noteq> padding_right padding
            \<or> padding_top (valign self1) \<noteq> padding_top padding
            \<or> padding_bottom (valign self1) \<noteq> padding_bottom padding)
         else (self1, negotiation_needed))"

definition gst_va_h264_dec_new_sequence ::
  "backend \<Rightarrow> GstVaH264Dec \<Rightarrow> GstH264SPS \<Rightarrow> gint \<Rightarrow> bool \<times> GstVaH264Dec \<times> call list" where
  "gst_va_h264_dec_new_sequence b self sps max_dpb_size =
     (let self0 = (if dpb_size self <s max_dpb_size then self\<lparr>dpb_size := max_dpb_size\<rparr> else self);
          cropping = (sps_frame_cropping_flag sps \<noteq> 0);
          display_width = (if cropping then sps_crop_rect_width sps else sps_width sps);
          display_height = (if cropping then sps_crop_rect_height sps else sps_height sps);
          padding =
            (if cropping then
               \<lparr>padding_top = sps_crop_rect_y sps,
                padding_bottom = sps_height sps - sps_crop_rect_y sps - display_height,
                padding_left = sps_crop_rect_x sps,
                padding_right = sps_width sps - sps_crop_rect_x sps - display_width\<rparr>
             else \<lparr>padding_top = 0, padding_bottom = 0, padding_left = 0, padding_right = 0\<rparr>);
          profile' = get_profile b sps max_dpb_size
      in if profile' = VAProfileNone then (False, self0, [])
         else
           (let rt_format' = get_rtformat (sps_bit_depth_luma_minus8 sps + 8) (sps_chroma_format_idc sps)
            in if rt_format' = 0 then (False, self0, [])
               else
                 (let changed = \<not> va_decoder_config_is_equal b profile' rt_format' (sps_width sps) (sps_height sps);
                      self1 = (if changed
                               then self0\<lparr>profile := profile', rt_format := rt_format',
                                          coded_width := sps_width sps, coded_height := sps_height sps\<rparr>
                               else self0);
                      resized = (width self1 \<noteq> display_width \<or> height self1 \<noteq> display_height);
                      self2 = (if resized then self1\<lparr>width := display_width, height := display_height\<rparr>
                               else self1);
                      interlaced' = (sps_frame_mbs_only_flag sps = 0);
                      relaced = (interlaced self2 \<noteq> interlaced');
                      self3 = (if relaced then self2\<lparr>interlaced := interlaced'\<rparr> else self2);
                      (self4, negotiation_needed) =
                        new_sequence_valign self3 padding (changed \<or> resized \<or> relaced);
                      self5 = self4\<lparr>min_buffers := dpb_size self4 + 4\<rparr>
                  in if negotiation_needed then
                       (let (ok, self6) = video_decoder_negotiate b (self5\<lparr>need_negotiation := True\<rparr>)
                        in (ok, self6, [Call_negotiate]))
                     else (True, self5, []))))"


subsection \<open>Specification-level notions\<close>

text \<open>
  The fully-invalid filler record of the specification: invalid surface id, the invalid
  flag, zero order counts and a zero frame index.
\<close>

definition invalid_pic :: VAPictureH264 where
  "invalid_pic =
     \<lparr>picture_id = VA_INVALID_ID, frame_idx = 0, flags = VA_PICTURE_H264_INVALID,
      TopFieldOrderCnt = 0, BottomFieldOrderCnt = 0\<rparr>"

text \<open>
  What the specification asks of one slot of a reference list: the descriptor of the
  entry's picture, or the filler record for a hole.
\<close>

definition ref_pic_list_descriptor :: "GstH264Picture \<Rightarrow> GstH264Picture option \<Rightarrow> VAPictureH264" where
  "ref_pic_list_descriptor current_picture entry =
     (case entry of
        Some picture \<Rightarrow>
          fill_vaapi_pic invalid_pic picture (GST_H264_PICTURE_IS_FRAME current_picture)
      | None \<Rightarrow> invalid_pic)"

text \<open>
  The ordered candidate list of the specification's profile selection, written in the
  fields of the SPS alone: the direct mapping first, then the fallbacks of the SPS's
  profile. A constraint-set flag is one of \<open>constraint_set0_flag\<close>, \<open>constraint_set1_flag\<close>
  and \<open>constraint_set2_flag\<close>, the flags of Annex A.2. An SPS has exactly two views when
  it carries the MVC extension and its \<open>num_views_minus1\<close> plus one is 2 (without the
  extension there is one view). "Max DPB size at most 16" is the comparison of the
  numbers: the \<^verbatim>\<open>gint\<close> read as a signed number.
\<close>

definition profile_direct :: "GstH264SPS \<Rightarrow> VAProfile list" where
  "profile_direct sps =
     (if sps_profile_idc sps = GST_H264_PROFILE_MAIN then [VAProfileH264Main]
      else if sps_profile_idc sps = GST_H264_PROFILE_HIGH then [VAProfileH264High]
      else if sps_profile_idc sps = GST_H264_PROFILE_MULTIVIEW_HIGH then [VAProfileH264MultiviewHigh]
      else if sps_profile_idc sps = GST_H264_PROFILE_STEREO_HIGH then [VAProfileH264StereoHigh]
      else [])"

definition profile_fallbacks :: "GstH264SPS \<Rightarrow> gint \<Rightarrow> VAProfile list" where
  "profile_fallbacks sps max_dpb_size =
     (if sps_profile_idc sps = GST_H264_PROFILE_BASELINE
         \<and> (sps_constraint_set0_flag sps \<noteq> 0 \<or> sps_constraint_set1_flag sps \<noteq> 0
              \<or> sps_constraint_set2_flag sps \<noteq> 0)
      then [VAProfileH264ConstrainedBaseline, VAProfileH264Main]
      else if sps_profile_idc sps = GST_H264_PROFILE_EXTENDED \<and> sps_constraint_set1_flag sps \<noteq> 0
      then [VAProfileH264Main]
      else if sps_profile_idc sps = GST_H264_PROFILE_MULTIVIEW_HIGH
      then (if sps_extension_type sps = GST_H264_NAL_EXTENSION_MVC
               \<and> unat (sps_mvc_num_views_minus1 sps) + 1 = 2
            then [VAProfileH264StereoHigh] else [])
           @ (if sint max_dpb_size \<le> 16 then [VAProfileH264MultiviewHigh] else [])
      else [])"

definition profile_candidates :: "GstH264SPS \<Rightarrow> gint \<Rightarrow> VAProfile list" where
  "profile_candidates sps max_dpb_size = profile_direct sps @ profile_fallbacks sps max_dpb_size"

definition first_supported :: "backend \<Rightarrow> VAProfile list \<Rightarrow> VAProfile" where
  "first_supported b candidates =
     (case find (va_decoder_has_profile b) candidates of
        Some p \<Rightarrow> p
      | None \<Rightarrow> VAProfileNone)"

subsection \<open>Concrete inputs\<close>

text \<open>Small concrete values on which the theorems below are instantiated.\<close>

definition ex_buffer :: GstBuffer where
  "ex_buffer = \<lparr>buffer_addr = 1, buffer_surface = 7\<rparr>"

definition ex_va_pic :: GstVaDecodePicture where
  "ex_va_pic = \<lparr>gstbuffer = ex_buffer\<rparr>"

definition ex_picture_long :: GstH264Picture where
  "ex_picture_long =
     GstH264Picture 8 5 3 8 9 GST_H264_PICTURE_REF_LONG_TERM GST_H264_PICTURE_FIELD_FRAME
       1 0 (Some ex_va_pic) None"

definition ex_picture_short :: GstH264Picture where
  "ex_picture_short =
     GstH264Picture 4 6 0 4 0 GST_H264_PICTURE_REF_SHORT_TERM GST_H264_PICTURE_FIELD_TOP_FIELD
       1 0 (Some ex_va_pic) None"

definition ex_picture_bare :: GstH264Picture where
  "ex_picture_bare =
     GstH264Picture 2 7 1 2 3 GST_H264_PICTURE_REF_LONG_TERM GST_H264_PICTURE_FIELD_FRAME
       1 0 None None"


definition ex_self :: GstVaH264Dec where
  "ex_self =
     \<lparr>profile = VAProfileNone, rt_format = 0, width = 0, height = 0, need_valign = False,
      valign = \<lparr>padding_top = 0, padding_bottom = 0, padding_left = 0, padding_right = 0\<rparr>,
      min_buffers = 0, copy_frames = False,
      last_ret = GST_FLOW_OK, coded_width = 0, coded_height = 0, dpb_size = 0,
      need_negotiation = False, interlaced = False\<rparr>"

text \<open>
  A backend whose frame pool has one buffer, handed to frame number 0 only, and whose
  accelerator supports Constrained Baseline only and accepts every buffer.
\<close>

definition ex_backend :: backend where
  "ex_backend =
     \<lparr>video_decoder_allocate_output_frame =
        (\<lambda>frame. if system_frame_number frame = 0
                  then (GST_FLOW_OK, frame\<lparr>output_buffer := Some ex_buffer\<rparr>)
                  else (GST_FLOW_ERROR, frame)),
      video_decoder_finish_frame = (\<lambda>frame. GST_FLOW_OK),
      video_decoder_negotiate = (\<lambda>self. (True, self\<lparr>need_negotiation := False\<rparr>)),
      va_decoder_has_profile = (\<lambda>p. p = VAProfileH264ConstrainedBaseline),
      va_decoder_config_is_equal = (\<lambda>p f w h. False),
      va_decoder_add_param_buffer = (\<lambda>va_pic buf. True),
      va_decoder_add_slice_buffer = (\<lambda>va_pic sp data size. True),
      va_decoder_decode = (\<lambda>va_pic. True),
      quant_matrix_4x4_get_raster_from_zigzag = (\<lambda>l. l),
      quant_matrix_8x8_get_raster_from_zigzag = (\<lambda>l. l)\<rparr>"

text \<open>
  An 8-bit SPS of the given profile and chroma format, 16x16, not cropped, with
  \<open>constraint_set1_flag\<close> set.
\<close>

definition ex_sps :: "guint8 \<Rightarrow> guint8 \<Rightarrow> GstH264SPS" where
  "ex_sps profile_idc chroma_format_idc =
     \<lparr>sps_profile_idc = profile_idc,
      sps_constraint_set0_flag = 0, sps_constraint_set1_flag = 1, sps_constraint_set2_flag = 0,
      sps_level_idc = 30, sps_chroma_format_idc = chroma_format_idc,
      sps_separate_colour_plane_flag = 0,
      sps_bit_depth_luma_minus8 = 0, sps_bit_depth_chroma_minus8 = 0,
      sps_log2_max_frame_num_minus4 = 0, sps_pic_order_cnt_type = 0,
      sps_log2_max_pic_order_cnt_lsb_minus4 = 0, sps_delta_pic_order_always_zero_flag = 0,
      sps_num_ref_frames = 1, sps_gaps_in_frame_num_value_allowed_flag = 0,
      sps_pic_width_in_mbs_minus1 = 0, sps_pic_height_in_map_units_minus1 = 0,
      sps_frame_mbs_only_flag = 1, sps_mb_adaptive_frame_field_flag = 0,
      sps_direct_8x8_inference_flag = 1, sps_frame_cropping_flag = 0,
      sps_chroma_array_type = chroma_format_idc,
      sps_width = 16, sps_height = 16,
      sps_crop_rect_width = 16, sps_crop_rect_height = 16, sps_crop_rect_x = 0, sps_crop_rect_y = 0,
      sps_extension_type = 0, sps_mvc_num_views_minus1 = 0\<rparr>"

definition ex_pps :: "guint8 \<Rightarrow> guint8 \<Rightarrow> GstH264PPS" where
  "ex_pps weighted_pred_flag weighted_bipred_idc =
     \<lparr>pps_sequence = ex_sps 66 1,
      pps_entropy_coding_mode_flag = 0, pps_pic_order_present_flag = 0,
      pps_weighted_pred_flag = weighted_pred_flag, pps_weighted_bipred_idc = weighted_bipred_idc,
      pps_pic_init_qp_minus26 = 0, pps_pic_init_qs_minus26 = 0,
      pps_chroma_qp_index_offset = 0, pps_second_chroma_qp_index_offset = 0,
      pps_deblocking_filter_control_present_flag = 0, pps_constrained_intra_pred_flag = 0,
      pps_redundant_pic_cnt_present_flag = 0, pps_transform_8x8_mode_flag = 0,
      pps_scaling_lists_4x4 = replicate 6 (replicate 16 16),
      pps_scaling_lists_8x8 = replicate 6 (replicate 64 16)\<rparr>"

definition ex_pred_weight_table :: GstH264PredWeightTable where
  "ex_pred_weight_table =
     \<lparr>pwt_luma_log2_weight_denom = 5, pwt_chroma_log2_weight_denom = 5,
      pwt_luma_weight_l0 = replicate 32 32, pwt_luma_offset_l0 = replicate 32 1,
      pwt_chroma_weight_l0 = replicate 32 [32, 32], pwt_chroma_offset_l0 = replicate 32 [1, 1],
      pwt_luma_weight_l1 = replicate 32 32, pwt_luma_offset_l1 = replicate 32 1,
      pwt_chroma_weight_l1 = replicate 32 [32, 32], pwt_chroma_offset_l1 = replicate 32 [1, 1]\<rparr>"

text \<open>
  A slice header of the given slice type and PPS flags, 40 bits long with one
  emulation-prevention byte, in a NAL unit with a one-byte header.
\<close>

definition ex_header :: "guint \<Rightarrow> guint8 \<Rightarrow> guint8 \<Rightarrow> GstH264SliceHdr" where
  "ex_header ty weighted_pred_flag weighted_bipred_idc =
     \<lparr>hdr_first_mb_in_slice = 0, hdr_type = ty,
      hdr_pps = ex_pps weighted_pred_flag weighted_bipred_idc,
      hdr_frame_num = 5, hdr_field_pic_flag = 0, hdr_direct_spatial_mv_pred_flag = 0,
      hdr_num_ref_idx_l0_active_minus1 = 0, hdr_num_ref_idx_l1_active_minus1 = 0,
      hdr_pred_weight_table = ex_pred_weight_table,
      hdr_cabac_init_idc = 0, hdr_slice_qp_delta = 0, hdr_disable_deblocking_filter_idc = 0,
      hdr_slice_alpha_c0_offset_div2 = 0, hdr_slice_beta_offset_div2 = 0,
      hdr_header_size = 40, hdr_n_emulation_prevention_bytes = 1\<rparr>"

definition ex_slice :: "guint \<Rightarrow> guint8 \<Rightarrow> guint8 \<Rightarrow> GstH264Slice" where
  "ex_slice ty weighted_pred_flag weighted_bipred_idc =
     \<lparr>slice_header = ex_header ty weighted_pred_flag weighted_bipred_idc,
      slice_nalu = \<lparr>nalu_size = 100, nalu_offset = 4, nalu_header_bytes = 1, nalu_data = 4096\<rparr>\<rparr>"

definition ex_dpb :: GstH264Dpb where
  "ex_dpb =
     \<lparr>dpb_pictures_short_term_ref = (\<lambda>include_non_existing include_second_field.
        [ex_picture_short, ex_picture_bare]),
      dpb_pictures_long_term_ref = (\<lambda>include_second_field. [ex_picture_long])\<rparr>"

section \<open>Properties\<close>

subsection \<open>The picture descriptor builder\<close>

lemma init_vaapi_pic_eq: "init_vaapi_pic v = invalid_pic"
  by (simp add: init_vaapi_pic_def invalid_pic_def)

text \<open>
  Every branch of \<^verbatim>\<open>_fill_vaapi_pic\<close> writes all five fields, so the descriptor does not
  depend on what the slot held before.
\<close>

lemma fill_vaapi_pic_indep: "fill_vaapi_pic v p m = fill_vaapi_pic w p m"
  by (cases v; cases w)
     (simp add: fill_vaapi_pic_def fill_vaapi_pic_field_def fill_vaapi_pic_marking_def
       init_vaapi_pic_def Let_def split: option.splits GstH264PictureField.splits bool.splits)

lemma flags_field_keeps:
  "flags v AND b = b \<Longrightarrow> flags (fill_vaapi_pic_field v p m) AND b = b"
  by (auto simp add: fill_vaapi_pic_field_def Let_def bit_eq_iff bit_simps
        split: option.splits GstH264PictureField.splits bool.splits)

lemma frame_idx_field: "frame_idx (fill_vaapi_pic_field v p m) = frame_idx v"
  by (simp add: fill_vaapi_pic_field_def Let_def
        split: option.splits GstH264PictureField.splits bool.splits)

lemma or_and_same: "((a::32 word) OR b) AND b = b"
  by (simp add: bit_eq_iff bit_simps)

text \<open>
  Claim C4. For a decoded picture (one that carries its accelerator decode picture) used
  as a reference, the descriptor \<^verbatim>\<open>_fill_vaapi_pic\<close> builds has, if the picture is marked
  long-term, the long-term flag bit set and \<open>frame_idx\<close> equal to \<open>long_term_frame_idx\<close>;
  otherwise, if it is marked short-term, the short-term flag bit set and \<open>frame_idx\<close>
  equal to \<open>frame_num\<close>. (The \<^verbatim>\<open>gint\<close> is stored in the \<^verbatim>\<open>uint32_t\<close> field with its 32
  bits unchanged. The field branch may add the top-field or bottom-field bit to the
  flags; it never clears a bit.)
\<close>

theorem fill_vaapi_pic_reference_marking:
  assumes "gst_h264_picture_get_user_data picture = Some va_pic"
  shows "(GST_H264_PICTURE_IS_LONG_TERM_REF picture \<longrightarrow>
            flags (fill_vaapi_pic va_picture picture merge_other_field)
              AND VA_PICTURE_H264_LONG_TERM_REFERENCE = VA_PICTURE_H264_LONG_TERM_REFERENCE
          \<and> frame_idx (fill_vaapi_pic va_picture picture merge_other_field)
              = long_term_frame_idx picture)
       \<and> (\<not> GST_H264_PICTURE_IS_LONG_TERM_REF picture
            \<and> GST_H264_PICTURE_IS_SHORT_TERM_REF picture \<longrightarrow>
            flags (fill_vaapi_pic va_picture picture merge_other_field)
              AND VA_PICTURE_H264_SHORT_TERM_REFERENCE = VA_PICTURE_H264_SHORT_TERM_REFERENCE
          \<and> frame_idx (fill_vaapi_pic va_picture picture merge_other_field)
              = frame_num picture)"
  using assms
  by (simp add: fill_vaapi_pic_def frame_idx_field flags_field_keeps or_and_same
        fill_vaapi_pic_marking_def Let_def)

theorem fill_vaapi_pic_reference_marking_witness:
  "gst_h264_picture_get_user_data ex_picture_long = Some ex_va_pic
   \<and> GST_H264_PICTURE_IS_LONG_TERM_REF ex_picture_long
   \<and> flags (fill_vaapi_pic zero_vaapi_pic ex_picture_long True) = 0x10
   \<and> frame_idx (fill_vaapi_pic zero_vaapi_pic ex_picture_long True) = 3
   \<and> gst_h264_picture_get_user_data ex_picture_short = Some ex_va_pic
   \<and> \<not> GST_H264_PICTURE_IS_LONG_TERM_REF ex_picture_short
   \<and> GST_H264_PICTURE_IS_SHORT_TERM_REF ex_picture_short
   \<and> flags (fill_vaapi_pic zero_vaapi_pic ex_picture_short True) = 0x0A
   \<and> frame_idx (fill_vaapi_pic zero_vaapi_pic ex_picture_short True) = 6"
proof -
  have l: "gst_h264_picture_get_user_data ex_picture_long = Some ex_va_pic"
    by (simp add: gst_h264_picture_get_user_data_def ex_picture_long_def)
  have s: "gst_h264_picture_get_user_data ex_picture_short = Some ex_va_pic"
    by (simp add: gst_h264_picture_get_user_data_def ex_picture_short_def)
  have fl: "flags (fill_vaapi_pic zero_vaapi_pic ex_picture_long True) = 0x10"
    by (simp add: fill_vaapi_pic_def fill_vaapi_pic_field_def fill_vaapi_pic_marking_def
          gst_h264_picture_get_user_data_def ex_picture_long_def zero_vaapi_pic_def
          GST_H264_PICTURE_IS_LONG_TERM_REF_def VA_PICTURE_H264_LONG_TERM_REFERENCE_def)
  have fs: "flags (fill_vaapi_pic zero_vaapi_pic ex_picture_short True) = 0x0A"
    by (simp add: fill_vaapi_pic_def fill_vaapi_pic_field_def fill_vaapi_pic_marking_def
          gst_h264_picture_get_user_data_def ex_picture_short_def zero_vaapi_pic_def
          GST_H264_PICTURE_IS_LONG_TERM_REF_def GST_H264_PICTURE_IS_SHORT_TERM_REF_def
          VA_PICTURE_H264_SHORT_TERM_REFERENCE_def VA_PICTURE_H264_TOP_FIELD_def)
  show ?thesis
    using fill_vaapi_pic_reference_marking [OF l, of zero_vaapi_pic True]
      fill_vaapi_pic_reference_marking [OF s, of zero_vaapi_pic True] l s fl fs
    by (simp add: GST_H264_PICTURE_IS_LONG_TERM_REF_def GST_H264_PICTURE_IS_SHORT_TERM_REF_def
          ex_picture_long_def ex_picture_short_def)
qed

text \<open>
  Claim C10. For a non-null picture with no accelerator decode picture attached as user
  data, \<^verbatim>\<open>_fill_vaapi_pic\<close> produces exactly the fully-invalid filler record (invalid
  surface handle, invalid flag, zero frame index and order counts). The right-hand side
  mentions neither the picture nor the merge flag nor the slot's old content: no other
  field of the picture is read.
\<close>

theorem fill_vaapi_pic_without_decode_picture:
  assumes "gst_h264_picture_get_user_data picture = None"
  shows "fill_vaapi_pic va_picture picture merge_other_field =
           \<lparr>picture_id = VA_INVALID_ID, frame_idx = 0, flags = VA_PICTURE_H264_INVALID,
            TopFieldOrderCnt = 0, BottomFieldOrderCnt = 0\<rparr>"
  using assms by (simp add: fill_vaapi_pic_def init_vaapi_pic_def)

theorem fill_vaapi_pic_without_decode_picture_witness:
  "gst_h264_picture_get_user_data ex_picture_bare = None
   \<and> fill_vaapi_pic zero_vaapi_pic ex_picture_bare True =
       \<lparr>picture_id = 0xffffffff, frame_idx = 0, flags = 1,
        TopFieldOrderCnt = 0, BottomFieldOrderCnt = 0\<rparr>"
proof -
  have n: "gst_h264_picture_get_user_data ex_picture_bare = None"
    by (simp add: gst_h264_picture_get_user_data_def ex_picture_bare_def)
  show ?thesis
    using fill_vaapi_pic_without_decode_picture [OF n, of zero_vaapi_pic True] n
    by (simp add: VA_INVALID_ID_def VA_PICTURE_H264_INVALID_def)
qed

subsection \<open>The reference list filler\<close>

lemma fill_ref_pic_list_entry_eq:
  "fill_ref_pic_list_entry reflist cur i l = l[i := ref_pic_list_descriptor cur (reflist ! i)]"
  by (simp add: fill_ref_pic_list_entry_def ref_pic_list_descriptor_def init_vaapi_pic_eq
        fill_vaapi_pic_indep [of "l ! i" _ _ invalid_pic] split: option.splits)

text \<open>A counted loop that writes slot \<open>i\<close> with \<open>g i\<close>, for \<open>i\<close> from \<open>a\<close> below \<open>b\<close>.\<close>

lemma fold_list_update_upt:
  "a \<le> b \<Longrightarrow> b \<le> length l \<Longrightarrow>
   fold (\<lambda>i l. l[i := g i]) [a..<b] l = take a l @ map g [a..<b] @ drop b l"
proof (induction b)
  case 0
  then show ?case by simp
next
  case (Suc b)
  show ?case
  proof (cases "a = Suc b")
    case True
    then show ?thesis by simp
  next
    case False
    with Suc.prems have ab: "a \<le> b" and bl: "b < length l" by simp_all
    have "fold (\<lambda>i l. l[i := g i]) [a..<Suc b] l =
          (take a l @ map g [a..<b] @ drop b l)[b := g b]"
      using ab bl Suc.IH by simp
    also have "\<dots> = take a l @ map g [a..<b] @ (drop b l)[0 := g b]"
      using ab bl by (simp add: list_update_append)
    also have "(drop b l)[0 := g b] = g b # drop (Suc b) l"
    proof -
      have "drop b l = l ! b # drop (Suc b) l"
        using bl by (simp add: Cons_nth_drop_Suc)
      then show ?thesis by simp
    qed
    finally show ?thesis using ab by simp
  qed
qed

lemma map_nth_upt: "map (\<lambda>i. h (xs ! i)) [0..<length xs] = map h xs"
proof -
  have "map (\<lambda>i. h (xs ! i)) [0..<length xs] = map h (map ((!) xs) [0..<length xs])"
    by (simp add: o_def)
  then show ?thesis by (simp only: map_nth)
qed

lemma fill_ref_pic_list_eq:
  assumes "length reflist \<le> 32" and "length va_reflist = 32"
  shows "fill_ref_pic_list va_reflist reflist cur =
         Some (map (ref_pic_list_descriptor cur) reflist @
               replicate (32 - length reflist) invalid_pic)"
proof -
  let ?n = "length reflist"
  let ?g = "\<lambda>i. ref_pic_list_descriptor cur (reflist ! i)"
  have first: "fold (fill_ref_pic_list_entry reflist cur) [0..<?n] va_reflist =
               map (ref_pic_list_descriptor cur) reflist @ drop ?n va_reflist"
    using assms fold_list_update_upt [of 0 ?n va_reflist ?g]
    by (simp add: fill_ref_pic_list_entry_eq [abs_def] map_nth_upt)
  let ?l = "map (ref_pic_list_descriptor cur) reflist @ drop ?n va_reflist"
  have len: "length ?l = 32" using assms by simp
  have second: "fold (\<lambda>i l. l[i := init_vaapi_pic (l ! i)]) [?n..<32] ?l =
                take ?n ?l @ map (\<lambda>i. invalid_pic) [?n..<32] @ drop 32 ?l"
    using assms len fold_list_update_upt [of ?n 32 ?l "\<lambda>i. invalid_pic"]
    by (simp add: init_vaapi_pic_eq)
  have "map (\<lambda>i. invalid_pic) [?n..<32] = replicate (32 - ?n) invalid_pic"
    by (simp add: map_replicate_const)
  with first second assms show ?thesis
    by (simp add: fill_ref_pic_list_def Let_def)
qed

text \<open>
  Claim C5. For a reference list of length \<open>N \<le> 32\<close> that may hold null holes,
  \<^verbatim>\<open>_fill_ref_pic_list\<close> returns (it writes inside the array) and leaves the 32-entry
  array as: the descriptors of the entries in list order, one slot per entry, followed
  by \<open>32 - N\<close> filler records. So slot \<open>i < N\<close> of a non-null entry is the descriptor of
  that very picture (nothing is reordered or dropped), slot \<open>i < N\<close> of a null entry is
  the fully-invalid filler record, and every slot from \<open>N\<close> up to 31 is the filler
  record.
\<close>

theorem fill_ref_pic_list_slots:
  assumes "length reflist \<le> 32" and "length va_reflist = 32"
  shows "\<exists>out. fill_ref_pic_list va_reflist reflist current_picture = Some out
           \<and> length out = 32
           \<and> out = map (ref_pic_list_descriptor current_picture) reflist
                     @ replicate (32 - length reflist) invalid_pic
           \<and> (\<forall>i picture. i < length reflist \<and> reflist ! i = Some picture \<longrightarrow>
                 out ! i = fill_vaapi_pic (va_reflist ! i) picture
                             (GST_H264_PICTURE_IS_FRAME current_picture))
           \<and> (\<forall>i. i < length reflist \<and> reflist ! i = None \<longrightarrow> out ! i = invalid_pic)
           \<and> (\<forall>i. length reflist \<le> i \<and> i < 32 \<longrightarrow> out ! i = invalid_pic)"
proof -
  let ?out = "map (ref_pic_list_descriptor current_picture) reflist
                @ replicate (32 - length reflist) invalid_pic"
  have eq: "fill_ref_pic_list va_reflist reflist current_picture = Some ?out"
    using assms by (rule fill_ref_pic_list_eq)
  have len: "length ?out = 32"
    using assms by simp
  have some: "?out ! i = fill_vaapi_pic (va_reflist ! i) picture
                           (GST_H264_PICTURE_IS_FRAME current_picture)"
    if "i < length reflist" and "reflist ! i = Some picture" for i picture
    using that
    by (simp add: nth_append ref_pic_list_descriptor_def
          fill_vaapi_pic_indep [of invalid_pic _ _ "va_reflist ! i"])
  have none: "?out ! i = invalid_pic" if "i < length reflist" and "reflist ! i = None" for i
    using that by (simp add: nth_append ref_pic_list_descriptor_def)
  have rest: "?out ! i = invalid_pic" if "length reflist \<le> i" and "i < 32" for i
    using that by (simp add: nth_append)
  from eq len some none rest show ?thesis
    by blast
qed

theorem fill_ref_pic_list_slots_witness:
  "length [Some ex_picture_long, None, Some ex_picture_long] \<le> 32
   \<and> length (replicate 32 zero_vaapi_pic) = 32
   \<and> fill_ref_pic_list (replicate 32 zero_vaapi_pic)
       [Some ex_picture_long, None, Some ex_picture_long] ex_picture_short
     = Some ([\<lparr>picture_id = 7, frame_idx = 3, flags = 0x10,
               TopFieldOrderCnt = 8, BottomFieldOrderCnt = 9\<rparr>,
              invalid_pic,
              \<lparr>picture_id = 7, frame_idx = 3, flags = 0x10,
               TopFieldOrderCnt = 8, BottomFieldOrderCnt = 9\<rparr>]
             @ replicate 29 invalid_pic)"
proof -
  have d: "ref_pic_list_descriptor ex_picture_short (Some ex_picture_long) =
           \<lparr>picture_id = 7, frame_idx = 3, flags = 0x10,
            TopFieldOrderCnt = 8, BottomFieldOrderCnt = 9\<rparr>"
    by (simp add: ref_pic_list_descriptor_def fill_vaapi_pic_def fill_vaapi_pic_field_def
          fill_vaapi_pic_marking_def gst_h264_picture_get_user_data_def ex_picture_long_def
          invalid_pic_def GST_H264_PICTURE_IS_LONG_TERM_REF_def
          VA_PICTURE_H264_LONG_TERM_REFERENCE_def gst_va_decode_picture_get_surface_def
          ex_va_pic_def ex_buffer_def)
  have h: "ref_pic_list_descriptor ex_picture_short None = invalid_pic"
    by (simp add: ref_pic_list_descriptor_def)
  show ?thesis
    using fill_ref_pic_list_slots [of "[Some ex_picture_long, None, Some ex_picture_long]"
        "replicate 32 zero_vaapi_pic" ex_picture_short] d h
    by simp
qed

subsection \<open>The reference frames of a picture\<close>

lemma fill_reference_frames_take:
  "idx \<le> 16 \<Longrightarrow> length frames = 16 \<Longrightarrow>
   snd (fill_reference_frames pics (frames, idx)) = min 16 (idx + length pics)
   \<and> length (fst (fill_reference_frames pics (frames, idx))) = 16
   \<and> take (min 16 (idx + length pics)) (fst (fill_reference_frames pics (frames, idx))) =
       take idx frames @ take (16 - idx) (map (\<lambda>p. fill_vaapi_pic invalid_pic p True) pics)"
proof (induction pics arbitrary: frames idx)
  case Nil
  then show ?case by simp
next
  case (Cons p pics)
  show ?case
  proof (cases "idx < 16")
    case True
    let ?f = "frames[idx := fill_vaapi_pic (frames ! idx) p True]"
    have t: "take (Suc idx) ?f = take idx frames @ [fill_vaapi_pic invalid_pic p True]"
      using True Cons.prems
      by (simp add: take_Suc_conv_app_nth fill_vaapi_pic_indep [of "frames ! idx" _ _ invalid_pic])
    have s: "16 - idx = Suc (16 - Suc idx)"
      using True by simp
    have l: "Suc idx \<le> 16" "length ?f = 16"
      using True Cons.prems by simp_all
    from True Cons.IH [OF l] t show ?thesis
      by (simp add: s)
  next
    case False
    with Cons.prems show ?thesis by simp
  qed
qed

lemma start_picture_reference_frames_eq:
  assumes "length frames = 16"
  shows "start_picture_reference_frames dpb frames =
           take 16 (map (\<lambda>p. fill_vaapi_pic invalid_pic p True)
                      (dpb_pictures_short_term_ref dpb False False
                       @ dpb_pictures_long_term_ref dpb False))
           @ replicate (16 - length (dpb_pictures_short_term_ref dpb False False
                                      @ dpb_pictures_long_term_ref dpb False)) invalid_pic"
proof -
  let ?g = "\<lambda>p. fill_vaapi_pic invalid_pic p True"
  let ?s = "dpb_pictures_short_term_ref dpb False False"
  let ?l = "dpb_pictures_long_term_ref dpb False"
  obtain f1 i1 where s1: "fill_reference_frames ?s (frames, 0) = (f1, i1)"
    by (cases "fill_reference_frames ?s (frames, 0)")
  obtain f2 i2 where s2: "fill_reference_frames ?l (f1, i1) = (f2, i2)"
    by (cases "fill_reference_frames ?l (f1, i1)")
  have "i1 = min 16 (length ?s) \<and> length f1 = 16 \<and> take i1 f1 = take 16 (map ?g ?s)"
    using fill_reference_frames_take [of 0 frames ?s] assms unfolding s1 by auto
  then have a1: "i1 = min 16 (length ?s)" "length f1 = 16" "take i1 f1 = take 16 (map ?g ?s)"
    by blast+
  have i1: "i1 \<le> 16"
    using a1(1) by simp
  have "i2 = min 16 (i1 + length ?l) \<and> length f2 = 16 \<and>
        take i2 f2 = take i1 f1 @ take (16 - i1) (map ?g ?l)"
    using fill_reference_frames_take [OF i1 a1(2), of ?l] unfolding s2 by auto
  then have a2: "i2 = min 16 (i1 + length ?l)" "length f2 = 16"
    "take i2 f2 = take i1 f1 @ take (16 - i1) (map ?g ?l)"
    by blast+
  have t: "take i2 f2 = take 16 (map ?g (?s @ ?l))"
    using a1 a2 by (simp add: min_def)
  have "fold (\<lambda>i l. l[i := init_vaapi_pic (l ! i)]) [i2..<16] f2 =
        take i2 f2 @ map (\<lambda>i. invalid_pic) [i2..<16] @ drop 16 f2"
    using a2 fold_list_update_upt [of i2 16 f2 "\<lambda>i. invalid_pic"]
    by (simp add: init_vaapi_pic_eq)
  moreover have "map (\<lambda>i. invalid_pic) [i2..<16] = replicate (16 - i2) invalid_pic"
    by (simp add: map_replicate_const)
  moreover have "16 - i2 = 16 - length (?s @ ?l)"
    using a1 a2 by (simp add: min_def)
  ultimately show ?thesis
    using s1 s2 a2 t by (simp add: start_picture_reference_frames_def Let_def)
qed

text \<open>
  Claim C7. At \<^verbatim>\<open>start_picture\<close>, the 16-slot \<open>ReferenceFrames\<close> array of the picture
  parameter block handed to the accelerator holds the descriptors of the short-term
  references in the order the decoded picture buffer returned them, then those of the
  long-term references, cut after 16 slots; every slot that is left is the fully-invalid
  filler record.
\<close>

theorem start_picture_reference_frames_order:
  "\<exists>pic_param calls.
     snd (gst_va_h264_dec_start_picture b picture slc dpb)
       = Call_add_param_buffer (gst_h264_picture_get_user_data picture)
           (VAPictureParameterBuffer pic_param) # calls
     \<and> pic_param = start_picture_pic_param picture slc dpb
     \<and> length (ReferenceFrames pic_param) = 16
     \<and> ReferenceFrames pic_param =
         take 16 (map (\<lambda>pic. fill_vaapi_pic invalid_pic pic True)
                    (dpb_pictures_short_term_ref dpb False False
                     @ dpb_pictures_long_term_ref dpb False))
         @ replicate (16 - length (dpb_pictures_short_term_ref dpb False False
                                    @ dpb_pictures_long_term_ref dpb False)) invalid_pic"
proof -
  have rf: "ReferenceFrames (start_picture_pic_param picture slc dpb) =
            start_picture_reference_frames dpb (replicate 16 zero_vaapi_pic)"
    by (simp add: start_picture_pic_param_def Let_def)
  have "\<exists>calls. snd (gst_va_h264_dec_start_picture b picture slc dpb)
       = Call_add_param_buffer (gst_h264_picture_get_user_data picture)
           (VAPictureParameterBuffer (start_picture_pic_param picture slc dpb)) # calls"
    by (simp add: gst_va_h264_dec_start_picture_def Let_def split: option.splits)
  then show ?thesis
    using rf start_picture_reference_frames_eq [of "replicate 16 zero_vaapi_pic" dpb]
    by auto
qed

theorem start_picture_reference_frames_order_witness:
  "ReferenceFrames (start_picture_pic_param ex_picture_long (ex_slice 0 0 0) ex_dpb) =
     [\<lparr>picture_id = 7, frame_idx = 6, flags = 0x0A,
       TopFieldOrderCnt = 4, BottomFieldOrderCnt = 0\<rparr>,
      invalid_pic,
      \<lparr>picture_id = 7, frame_idx = 3, flags = 0x10,
       TopFieldOrderCnt = 8, BottomFieldOrderCnt = 9\<rparr>]
     @ replicate 13 invalid_pic"
proof -
  have s: "fill_vaapi_pic invalid_pic ex_picture_short True =
           \<lparr>picture_id = 7, frame_idx = 6, flags = 0x0A,
            TopFieldOrderCnt = 4, BottomFieldOrderCnt = 0\<rparr>"
    by (simp add: fill_vaapi_pic_def fill_vaapi_pic_field_def
          fill_vaapi_pic_marking_def gst_h264_picture_get_user_data_def ex_picture_short_def
          invalid_pic_def GST_H264_PICTURE_IS_LONG_TERM_REF_def
          GST_H264_PICTURE_IS_SHORT_TERM_REF_def VA_PICTURE_H264_TOP_FIELD_def
          VA_PICTURE_H264_SHORT_TERM_REFERENCE_def gst_va_decode_picture_get_surface_def
          ex_va_pic_def ex_buffer_def)
  have b: "fill_vaapi_pic invalid_pic ex_picture_bare True = invalid_pic"
    by (simp add: fill_vaapi_pic_def init_vaapi_pic_eq gst_h264_picture_get_user_data_def
          ex_picture_bare_def)
  have l: "fill_vaapi_pic invalid_pic ex_picture_long True =
           \<lparr>picture_id = 7, frame_idx = 3, flags = 0x10,
            TopFieldOrderCnt = 8, BottomFieldOrderCnt = 9\<rparr>"
    by (simp add: fill_vaapi_pic_def fill_vaapi_pic_field_def
          fill_vaapi_pic_marking_def gst_h264_picture_get_user_data_def ex_picture_long_def
          invalid_pic_def GST_H264_PICTURE_IS_LONG_TERM_REF_def
          VA_PICTURE_H264_LONG_TERM_REFERENCE_def gst_va_decode_picture_get_surface_def
          ex_va_pic_def ex_buffer_def)
  show ?thesis
    using start_picture_reference_frames_order [of ex_backend ex_picture_long "ex_slice 0 0 0" ex_dpb]
      s b l
    by (simp add: ex_dpb_def)
qed

text \<open>
  The 8x8 loop of \<^verbatim>\<open>start_picture\<close> stays inside the two-slot array exactly when
  \<open>chroma_format_idc\<close> is not 3.
\<close>

lemma fold_4x4_keeps_8x8:
  "ScalingList8x8 (fold (\<lambda>i iq. iq\<lparr>ScalingList4x4 := f i iq\<rparr>) xs iq) = ScalingList8x8 iq"
  by (induction xs arbitrary: iq) simp_all

lemma start_picture_iq_matrix_none:
  "(start_picture_iq_matrix b pps = None) = (sps_chroma_format_idc (pps_sequence pps) = 3)"
  by (simp add: start_picture_iq_matrix_def Let_def fold_4x4_keeps_8x8)

subsection \<open>New pictures and their output\<close>




text \<open>
  Claim C9. When the first field has a decode picture attached, \<^verbatim>\<open>new_field_picture\<close>
  returns \<open>TRUE\<close> and attaches to the second field a decode picture made on the first
  field's output buffer. Its only call creates that decode picture from the first
  field's buffer: no output frame is allocated.
\<close>

theorem new_field_picture_shares_buffer:
  assumes "gst_h264_picture_get_user_data first_field = Some first_pic"
  shows "\<exists>second_pic.
           gst_va_h264_dec_new_field_picture b first_field second_field
             = (True, gst_h264_picture_set_user_data second_field (Some second_pic),
                [Call_decode_picture_new (Some (gstbuffer first_pic))])
           \<and> gst_h264_picture_get_user_data
               (gst_h264_picture_set_user_data second_field (Some second_pic)) = Some second_pic
           \<and> gstbuffer second_pic = gstbuffer first_pic
           \<and> gst_va_decode_picture_get_surface second_pic
               = gst_va_decode_picture_get_surface first_pic"
  using assms
  by (cases second_field)
     (simp add: gst_va_h264_dec_new_field_picture_def gst_va_decode_picture_new_def
        gst_h264_picture_get_user_data_def gst_va_decode_picture_get_surface_def)

theorem new_field_picture_shares_buffer_witness:
  "gst_h264_picture_get_user_data ex_picture_short = Some ex_va_pic
   \<and> gst_va_h264_dec_new_field_picture ex_backend ex_picture_short ex_picture_bare
       = (True, gst_h264_picture_set_user_data ex_picture_bare (Some ex_va_pic),
          [Call_decode_picture_new (Some ex_buffer)])"
proof -
  have s: "gst_h264_picture_get_user_data ex_picture_short = Some ex_va_pic"
    by (simp add: gst_h264_picture_get_user_data_def ex_picture_short_def)
  obtain second_pic where
    r: "gst_va_h264_dec_new_field_picture ex_backend ex_picture_short ex_picture_bare
          = (True, gst_h264_picture_set_user_data ex_picture_bare (Some second_pic),
             [Call_decode_picture_new (Some (gstbuffer ex_va_pic))])"
    and g: "gstbuffer second_pic = gstbuffer ex_va_pic"
    using new_field_picture_shares_buffer [OF s, of ex_backend ex_picture_bare] by blast
  have "second_pic = ex_va_pic"
    using g by (cases second_pic) (simp add: ex_va_pic_def)
  with r s show ?thesis
    by (simp add: ex_va_pic_def)
qed

subsection \<open>The slice parameter block\<close>

lemma num_weight_tables_0:
  "(num_weight_tables header = 0) =
     (\<not> (pps_weighted_pred_flag (hdr_pps header) \<noteq> 0
           \<and> (GST_H264_IS_P_SLICE header \<or> GST_H264_IS_SP_SLICE header))
      \<and> \<not> (pps_weighted_bipred_idc (hdr_pps header) = 1 \<and> GST_H264_IS_B_SLICE header))"
  by (auto simp add: num_weight_tables_def)

lemma decode_slice_param_ref_lists:
  assumes "length ref_pic_list0 \<le> 32" and "length ref_pic_list1 \<le> 32"
  shows "decode_slice_param picture slc ref_pic_list0 ref_pic_list1 =
           fill_pred_weight_table (slice_header slc)
             ((decode_slice_init (slice_header slc) (slice_nalu slc))
                \<lparr>RefPicList0 := map (ref_pic_list_descriptor picture) ref_pic_list0
                                  @ replicate (32 - length ref_pic_list0) invalid_pic,
                 RefPicList1 := map (ref_pic_list_descriptor picture) ref_pic_list1
                                  @ replicate (32 - length ref_pic_list1) invalid_pic\<rparr>)"
proof -
  have l: "length (RefPicList0 (decode_slice_init h n)) = 32"
    "length (RefPicList1 (decode_slice_init h n)) = 32" for h n
    by (simp_all add: decode_slice_init_def)
  show ?thesis
    using assms
    by (simp add: decode_slice_param_def Let_def fill_ref_pic_list_eq l)
qed

text \<open>
  Claim C8. For a slice whose PPS has neither the weighted-prediction flag with a P or SP
  slice nor \<open>weighted_bipred_idc = 1\<close> with a B slice, \<^verbatim>\<open>_fill_pred_weight_table\<close>
  returns the slice parameter block as it received it. In \<^verbatim>\<open>decode_slice\<close> the block
  handed on then still has the defaults of its initialiser in every weight, offset,
  denominator and flag field: zero.
\<close>

theorem fill_pred_weight_table_no_op:
  assumes "\<not> (pps_weighted_pred_flag (hdr_pps header) \<noteq> 0
               \<and> (GST_H264_IS_P_SLICE header \<or> GST_H264_IS_SP_SLICE header))"
    and "\<not> (pps_weighted_bipred_idc (hdr_pps header) = 1 \<and> GST_H264_IS_B_SLICE header)"
  shows "fill_pred_weight_table header slice_param = Some slice_param
         \<and> (slice_header slc = header \<and> length ref_pic_list0 \<le> 32 \<and> length ref_pic_list1 \<le> 32
            \<longrightarrow> (\<exists>sp. decode_slice_param picture slc ref_pic_list0 ref_pic_list1 = Some sp
                  \<and> luma_log2_weight_denom sp = 0 \<and> chroma_log2_weight_denom sp = 0
                  \<and> luma_weight_l0_flag sp = 0 \<and> chroma_weight_l0_flag sp = 0
                  \<and> luma_weight_l1_flag sp = 0 \<and> chroma_weight_l1_flag sp = 0
                  \<and> luma_weight_l0 sp = replicate 32 0 \<and> luma_offset_l0 sp = replicate 32 0
                  \<and> luma_weight_l1 sp = replicate 32 0 \<and> luma_offset_l1 sp = replicate 32 0
                  \<and> chroma_weight_l0 sp = replicate 32 [0, 0]
                  \<and> chroma_offset_l0 sp = replicate 32 [0, 0]
                  \<and> chroma_weight_l1 sp = replicate 32 [0, 0]
                  \<and> chroma_offset_l1 sp = replicate 32 [0, 0]))"
proof -
  have n: "num_weight_tables header = 0"
    using assms by (simp only: num_weight_tables_0) simp
  then have noop: "fill_pred_weight_table header sp = Some sp" for sp
    by (simp add: fill_pred_weight_table_def)
  show ?thesis
    by (simp add: noop decode_slice_param_ref_lists) (simp add: decode_slice_init_def)
qed

theorem fill_pred_weight_table_no_op_witness:
  "\<not> (pps_weighted_pred_flag (hdr_pps (ex_header 0 0 1)) \<noteq> 0
        \<and> (GST_H264_IS_P_SLICE (ex_header 0 0 1) \<or> GST_H264_IS_SP_SLICE (ex_header 0 0 1)))
   \<and> \<not> (pps_weighted_bipred_idc (hdr_pps (ex_header 0 0 1)) = 1
          \<and> GST_H264_IS_B_SLICE (ex_header 0 0 1))
   \<and> fill_pred_weight_table (ex_header 0 0 1)
        (decode_slice_init (ex_header 0 0 1) (slice_nalu (ex_slice 0 0 1)))
      = Some (decode_slice_init (ex_header 0 0 1) (slice_nalu (ex_slice 0 0 1)))
   \<and> (\<exists>sp. decode_slice_param ex_picture_long (ex_slice 0 0 1) [Some ex_picture_short] [] = Some sp
          \<and> luma_weight_l0_flag sp = 0 \<and> luma_weight_l0 sp = replicate 32 0)"
proof -
  have a: "\<not> (pps_weighted_pred_flag (hdr_pps (ex_header 0 0 1)) \<noteq> 0
        \<and> (GST_H264_IS_P_SLICE (ex_header 0 0 1) \<or> GST_H264_IS_SP_SLICE (ex_header 0 0 1)))"
    by (simp add: ex_header_def ex_pps_def)
  have b: "\<not> (pps_weighted_bipred_idc (hdr_pps (ex_header 0 0 1)) = 1
          \<and> GST_H264_IS_B_SLICE (ex_header 0 0 1))"
    by (simp add: ex_header_def ex_pps_def GST_H264_IS_B_SLICE_def GST_H264_B_SLICE_def)
  have h: "slice_header (ex_slice 0 0 1) = ex_header 0 0 1"
    by (simp add: ex_slice_def)
  show ?thesis
    using fill_pred_weight_table_no_op [OF a b,
        of "decode_slice_init (ex_header 0 0 1) (slice_nalu (ex_slice 0 0 1))"
           "ex_slice 0 0 1" "[Some ex_picture_short]" "[]" ex_picture_long] a b h
    by auto
qed

text \<open>
  The weight-table loops write the weight and offset arrays only: the bit offset and the
  two reference counts of the block stay as they are.
\<close>

lemma fold_fill_luma_l0_frame:
  "slice_data_bit_offset (fold (fill_luma_l0 t) xs sp) = slice_data_bit_offset sp
   \<and> num_ref_idx_l1_active_minus1 (fold (fill_luma_l0 t) xs sp) = num_ref_idx_l1_active_minus1 sp
   \<and> chroma_weight_l0_flag (fold (fill_luma_l0 t) xs sp) = chroma_weight_l0_flag sp"
  by (induction xs arbitrary: sp) (simp_all add: fill_luma_l0_def)

lemma fold_fill_luma_l1_frame:
  "slice_data_bit_offset (fold (fill_luma_l1 t) xs sp) = slice_data_bit_offset sp
   \<and> chroma_weight_l1_flag (fold (fill_luma_l1 t) xs sp) = chroma_weight_l1_flag sp"
  by (induction xs arbitrary: sp) (simp_all add: fill_luma_l1_def)

lemma fill_chroma_l0_frame:
  "slice_data_bit_offset (fill_chroma_l0 t i sp) = slice_data_bit_offset sp
   \<and> num_ref_idx_l1_active_minus1 (fill_chroma_l0 t i sp) = num_ref_idx_l1_active_minus1 sp"
  by (simp add: fill_chroma_l0_def upt_rec [of 0] upt_rec [of 1] upt_rec [of "Suc 0"])

lemma fill_chroma_l1_frame:
  "slice_data_bit_offset (fill_chroma_l1 t i sp) = slice_data_bit_offset sp"
  by (simp add: fill_chroma_l1_def upt_rec [of 0] upt_rec [of 1] upt_rec [of "Suc 0"])

lemma fold_fill_chroma_l0_frame:
  "slice_data_bit_offset (fold (fill_chroma_l0 t) xs sp) = slice_data_bit_offset sp
   \<and> num_ref_idx_l1_active_minus1 (fold (fill_chroma_l0 t) xs sp) = num_ref_idx_l1_active_minus1 sp"
  by (induction xs arbitrary: sp) (simp_all add: fill_chroma_l0_frame)

lemma fold_fill_chroma_l1_frame:
  "slice_data_bit_offset (fold (fill_chroma_l1 t) xs sp) = slice_data_bit_offset sp"
  by (induction xs arbitrary: sp) (simp_all add: fill_chroma_l1_frame)

lemma fill_pred_weight_table_l0_frame:
  "slice_data_bit_offset (fill_pred_weight_table_l0 header sp) = slice_data_bit_offset sp
   \<and> num_ref_idx_l1_active_minus1 (fill_pred_weight_table_l0 header sp)
       = num_ref_idx_l1_active_minus1 sp"
  by (simp add: fill_pred_weight_table_l0_def Let_def fold_fill_luma_l0_frame
        fold_fill_chroma_l0_frame del: upt_Suc)

lemma fill_pred_weight_table_l1_frame:
  "slice_data_bit_offset (fill_pred_weight_table_l1 header sp) = slice_data_bit_offset sp"
  by (simp add: fill_pred_weight_table_l1_def Let_def fold_fill_luma_l1_frame
        fold_fill_chroma_l1_frame del: upt_Suc)

lemma fill_pred_weight_table_total:
  assumes "unat (num_ref_idx_l0_active_minus1 sp) < 32"
    and "unat (num_ref_idx_l1_active_minus1 sp) < 32"
  shows "\<exists>sp'. fill_pred_weight_table header sp = Some sp'
               \<and> slice_data_bit_offset sp' = slice_data_bit_offset sp"
  using assms
  by (simp add: fill_pred_weight_table_def Let_def fill_pred_weight_table_l0_frame
        fill_pred_weight_table_l1_frame)

lemma unat_slice_data_bit_offset:
  assumes "8 * unat (hdr_n_emulation_prevention_bytes header)
             \<le> 8 * unat nal_header_bytes + unat (hdr_header_size header)"
    and "8 * unat nal_header_bytes + unat (hdr_header_size header) < 2 ^ 32"
  shows "unat (get_slice_data_bit_offset header nal_header_bytes) =
           8 * unat nal_header_bytes + unat (hdr_header_size header)
             - 8 * unat (hdr_n_emulation_prevention_bytes header)"
proof -
  let ?n = "nal_header_bytes" and ?h = "hdr_header_size header"
    and ?e = "hdr_n_emulation_prevention_bytes header"
  have n8: "unat (8 * ?n) = 8 * unat ?n"
    using assms(2) by (simp add: unat_word_ariths)
  have e8: "unat (?e * 8) = 8 * unat ?e"
    using assms by (simp add: unat_word_ariths mult.commute)
  have s: "unat (8 * ?n + ?h) = 8 * unat ?n + unat ?h"
    using assms(2) n8 by (simp add: unat_word_ariths)
  have "?e * 8 \<le> 8 * ?n + ?h"
    using assms(1) e8 s by (simp add: word_le_nat_alt)
  then have "unat (8 * ?n + ?h - ?e * 8) = unat (8 * ?n + ?h) - unat (?e * 8)"
    by (rule unat_sub)
  then show ?thesis
    by (simp add: get_slice_data_bit_offset_def Let_def s e8)
qed

text \<open>
  Claim C6. \<^verbatim>\<open>_get_slice_data_bit_offset\<close> returns
  \<open>8 * nal_header_bytes + header_size - 8 * n_emulation_prevention_bytes\<close>: exactly so in
  \<^verbatim>\<open>guint\<close> arithmetic for every slice header, and as a number wherever the sum and the
  difference stay within \<^verbatim>\<open>guint\<close>. \<^verbatim>\<open>decode_slice\<close> hands it to the accelerator in the
  (16 bits wide) \<open>slice_data_bit_offset\<close> field of the one slice buffer it submits, for
  reference lists of at most 32 entries and active reference counts of at most 32; no
  filler changes the field. With one NAL header byte, a header of 40 bits and one
  emulation-prevention byte the offset is 40.
\<close>

theorem slice_data_bit_offset_formula:
  "get_slice_data_bit_offset header nal_header_bytes
     = 8 * nal_header_bytes + hdr_header_size header
         - 8 * hdr_n_emulation_prevention_bytes header
   \<and> (8 * unat (hdr_n_emulation_prevention_bytes header)
         \<le> 8 * unat nal_header_bytes + unat (hdr_header_size header)
       \<and> 8 * unat nal_header_bytes + unat (hdr_header_size header) < 2 ^ 32
       \<longrightarrow> unat (get_slice_data_bit_offset header nal_header_bytes)
             = 8 * unat nal_header_bytes + unat (hdr_header_size header)
                 - 8 * unat (hdr_n_emulation_prevention_bytes header))
   \<and> (hdr_header_size header = 40 \<and> hdr_n_emulation_prevention_bytes header = 1
       \<longrightarrow> get_slice_data_bit_offset header 1 = 40)
   \<and> (length ref_pic_list0 \<le> 32 \<and> length ref_pic_list1 \<le> 32
       \<and> unat (hdr_num_ref_idx_l0_active_minus1 (slice_header slc)) < 32
       \<and> unat (hdr_num_ref_idx_l1_active_minus1 (slice_header slc)) < 32
       \<longrightarrow> (\<exists>ok slice_param data size.
               gst_va_h264_dec_decode_slice b picture slc ref_pic_list0 ref_pic_list1
                 = Some (ok, [Call_add_slice_buffer (gst_h264_picture_get_user_data picture)
                                slice_param data size])
               \<and> slice_data_bit_offset slice_param
                   = ucast (get_slice_data_bit_offset (slice_header slc)
                              (ucast (nalu_header_bytes (slice_nalu slc))))
               \<and> (get_slice_data_bit_offset (slice_header slc)
                     (ucast (nalu_header_bytes (slice_nalu slc))) < 2 ^ 16
                   \<longrightarrow> unat (slice_data_bit_offset slice_param)
                         = unat (get_slice_data_bit_offset (slice_header slc)
                                   (ucast (nalu_header_bytes (slice_nalu slc)))))))"
proof -
  let ?init = "(decode_slice_init (slice_header slc) (slice_nalu slc))
                \<lparr>RefPicList0 := map (ref_pic_list_descriptor picture) ref_pic_list0
                                  @ replicate (32 - length ref_pic_list0) invalid_pic,
                 RefPicList1 := map (ref_pic_list_descriptor picture) ref_pic_list1
                                  @ replicate (32 - length ref_pic_list1) invalid_pic\<rparr>"
  let ?off = "get_slice_data_bit_offset (slice_header slc)
                (ucast (nalu_header_bytes (slice_nalu slc)))"
  have formula: "get_slice_data_bit_offset header nal_header_bytes
           = 8 * nal_header_bytes + hdr_header_size header
               - 8 * hdr_n_emulation_prevention_bytes header"
    by (simp add: get_slice_data_bit_offset_def Let_def mult.commute)
  have example: "hdr_header_size header = 40 \<and> hdr_n_emulation_prevention_bytes header = 1
             \<longrightarrow> get_slice_data_bit_offset header 1 = 40"
    by (simp add: get_slice_data_bit_offset_def Let_def)
  have submitted: "\<exists>ok slice_param data size.
      gst_va_h264_dec_decode_slice b picture slc ref_pic_list0 ref_pic_list1
        = Some (ok, [Call_add_slice_buffer (gst_h264_picture_get_user_data picture)
                       slice_param data size])
      \<and> slice_data_bit_offset slice_param = ucast ?off
      \<and> (?off < 2 ^ 16 \<longrightarrow> unat (slice_data_bit_offset slice_param) = unat ?off)"
    if len: "length ref_pic_list0 \<le> 32" "length ref_pic_list1 \<le> 32"
      and idx: "unat (hdr_num_ref_idx_l0_active_minus1 (slice_header slc)) < 32"
        "unat (hdr_num_ref_idx_l1_active_minus1 (slice_header slc)) < 32"
  proof -
    have "unat (num_ref_idx_l0_active_minus1 ?init) < 32"
      "unat (num_ref_idx_l1_active_minus1 ?init) < 32"
      using idx by (simp_all add: decode_slice_init_def)
    then obtain sp where sp: "fill_pred_weight_table (slice_header slc) ?init = Some sp"
      and off: "slice_data_bit_offset sp = slice_data_bit_offset ?init"
      using fill_pred_weight_table_total by blast
    have param: "decode_slice_param picture slc ref_pic_list0 ref_pic_list1 = Some sp"
      using len sp by (simp add: decode_slice_param_ref_lists)
    have field: "slice_data_bit_offset sp = ucast ?off"
      using off by (simp add: decode_slice_init_def)
    have fits: "unat (slice_data_bit_offset sp) = unat ?off" if "?off < 2 ^ 16"
    proof -
      from that have "unat ?off < 2 ^ 16"
        by (simp add: word_less_nat_alt)
      then show ?thesis
        unfolding field by (simp add: unsigned_ucast_eq take_bit_nat_eq_self)
    qed
    have call: "\<exists>ok data size.
        gst_va_h264_dec_decode_slice b picture slc ref_pic_list0 ref_pic_list1
          = Some (ok, [Call_add_slice_buffer (gst_h264_picture_get_user_data picture) sp data size])"
      by (simp add: gst_va_h264_dec_decode_slice_def param Let_def)
    from call field fits show ?thesis
      by blast
  qed
  from formula example unat_slice_data_bit_offset [of header nal_header_bytes] submitted
  show ?thesis
    by blast
qed

theorem slice_data_bit_offset_formula_witness:
  "length [Some ex_picture_short] \<le> 32 \<and> length ([] :: GstH264Picture option list) \<le> 32
   \<and> unat (hdr_num_ref_idx_l0_active_minus1 (slice_header (ex_slice 0 1 0))) < 32
   \<and> unat (hdr_num_ref_idx_l1_active_minus1 (slice_header (ex_slice 0 1 0))) < 32
   \<and> hdr_header_size (ex_header 0 1 0) = 40
   \<and> hdr_n_emulation_prevention_bytes (ex_header 0 1 0) = 1
   \<and> 8 * unat (hdr_n_emulation_prevention_bytes (ex_header 0 1 0))
        \<le> 8 * unat (1 :: guint) + unat (hdr_header_size (ex_header 0 1 0))
   \<and> 8 * unat (1 :: guint) + unat (hdr_header_size (ex_header 0 1 0)) < 2 ^ 32
   \<and> get_slice_data_bit_offset (ex_header 0 1 0) 1 = 40
   \<and> unat (get_slice_data_bit_offset (ex_header 0 1 0) 1) = 40
   \<and> (\<exists>ok slice_param data size.
         gst_va_h264_dec_decode_slice ex_backend ex_picture_long (ex_slice 0 1 0)
             [Some ex_picture_short] []
           = Some (ok, [Call_add_slice_buffer (Some ex_va_pic) slice_param data size])
         \<and> slice_data_bit_offset slice_param = 40)"
proof -
  have h: "slice_header (ex_slice 0 1 0) = ex_header 0 1 0"
    "nalu_header_bytes (slice_nalu (ex_slice 0 1 0)) = 1"
    by (simp_all add: ex_slice_def)
  have v: "hdr_header_size (ex_header 0 1 0) = 40"
    "hdr_n_emulation_prevention_bytes (ex_header 0 1 0) = 1"
    "hdr_num_ref_idx_l0_active_minus1 (ex_header 0 1 0) = 0"
    "hdr_num_ref_idx_l1_active_minus1 (ex_header 0 1 0) = 0"
    by (simp_all add: ex_header_def)
  have u: "gst_h264_picture_get_user_data ex_picture_long = Some ex_va_pic"
    by (simp add: gst_h264_picture_get_user_data_def ex_picture_long_def)
  show ?thesis
    using slice_data_bit_offset_formula [of "ex_header 0 1 0" 1 "[Some ex_picture_short]" "[]"
        "ex_slice 0 1 0" ex_backend ex_picture_long]
    by (auto simp add: h v u)
qed

subsection \<open>Profile selection\<close>

lemma get_profile_has_loop_find:
  "get_profile_has_loop b profiles js = first_supported b (map ((!) profiles) js)"
  by (induction js) (simp_all add: first_supported_def)

lemma map_nth_take: "n \<le> length xs \<Longrightarrow> map ((!) xs) [0..<n] = take n xs"
  by (rule nth_equalityI) simp_all

lemma replicate_4: "replicate 4 x = [x, x, x, x]"
  by (simp add: numeral_eq_Suc)

text \<open>
  \<^verbatim>\<open>_get_num_views\<close> counts two views exactly for an SPS with the MVC extension whose
  \<open>num_views_minus1\<close> is 1: the 16-bit field widened to \<^verbatim>\<open>guint\<close> plus one does not wrap.
\<close>

lemma unat_views_minus1: "(unat (m :: 16 word) = Suc 0) = (m = 1)"
  by (simp add: word_unat_eq_iff)

lemma ucast_views_minus1: "(ucast (m :: 16 word) = (1 :: 32 word)) = (m = 1)"
proof -
  have "unat m < 2 ^ 16"
    using unsigned_less [of m] by simp
  then have "unat m < 2 ^ 32"
    by simp
  then have "unat (ucast m :: 32 word) = unat m"
    by (simp add: unsigned_ucast_eq take_bit_nat_eq_self)
  then show ?thesis
    by (simp add: word_unat_eq_iff)
qed

lemma get_num_views_two:
  "(get_num_views sps = 2)
     = (sps_extension_type sps = GST_H264_NAL_EXTENSION_MVC
        \<and> unat (sps_mvc_num_views_minus1 sps) + 1 = 2)"
  by (simp add: get_num_views_def ucast_views_minus1 unat_views_minus1)

text \<open>
  After the table lookup and the \<^verbatim>\<open>switch\<close>, the first \<open>i\<close> slots of \<^verbatim>\<open>profiles\<close> are the
  candidate list, and \<open>i\<close> stays within the four slots of the array.
\<close>

lemma get_profile_candidates:
  "snd (get_profile_switch sps max_dpb_size
          (get_profile_map_loop profile_map (sps_profile_idc sps) (replicate 4 VAProfileNone, 0)))
     = length (profile_candidates sps max_dpb_size)
   \<and> length (profile_candidates sps max_dpb_size) \<le> 3
   \<and> length (fst (get_profile_switch sps max_dpb_size
          (get_profile_map_loop profile_map (sps_profile_idc sps) (replicate 4 VAProfileNone, 0))))
     = 4
   \<and> take (length (profile_candidates sps max_dpb_size))
        (fst (get_profile_switch sps max_dpb_size
          (get_profile_map_loop profile_map (sps_profile_idc sps) (replicate 4 VAProfileNone, 0))))
     = profile_candidates sps max_dpb_size"
  by (simp add: get_profile_switch_def profile_map_def profiles_push_def profile_candidates_def
        profile_direct_def profile_fallbacks_def Let_def replicate_4
        get_num_views_two word_sle_eq
        GST_H264_PROFILE_BASELINE_def GST_H264_PROFILE_MAIN_def GST_H264_PROFILE_EXTENDED_def
        GST_H264_PROFILE_HIGH_def GST_H264_PROFILE_MULTIVIEW_HIGH_def
        GST_H264_PROFILE_STEREO_HIGH_def)

lemma get_profile_eq:
  "get_profile b sps max_dpb_size = first_supported b (profile_candidates sps max_dpb_size)"
proof -
  let ?s = "get_profile_switch sps max_dpb_size
          (get_profile_map_loop profile_map (sps_profile_idc sps) (replicate 4 VAProfileNone, 0))"
  let ?c = "profile_candidates sps max_dpb_size"
  have c: "snd ?s = length ?c" "length ?c \<le> 3" "length (fst ?s) = 4"
    "take (length ?c) (fst ?s) = ?c"
    using get_profile_candidates [of sps max_dpb_size] by blast+
  have "min (snd ?s) 4 = length ?c"
    using c(1,2) by simp
  moreover have "map ((!) (fst ?s)) [0..<length ?c] = ?c"
    using c(2,3,4) map_nth_take [of "length ?c" "fst ?s"] by simp
  ultimately show ?thesis
    by (simp add: get_profile_def Let_def get_profile_has_loop_find)
qed

lemma profile_candidates_not_none: "VAProfileNone \<notin> set (profile_candidates sps max_dpb_size)"
  by (simp add: profile_candidates_def profile_direct_def profile_fallbacks_def)

lemma find_Some_member: "find P xs = Some x \<Longrightarrow> x \<in> set xs \<and> P x"
  by (induction xs) (auto split: if_splits)

lemma first_supported_none:
  "VAProfileNone \<notin> set candidates \<Longrightarrow>
   (first_supported b candidates = VAProfileNone)
     = (\<forall>p \<in> set candidates. \<not> va_decoder_has_profile b p)"
  by (auto simp add: first_supported_def find_None_iff split: option.splits
        dest: find_Some_member)

text \<open>The candidate list of each profile, in the fields of the SPS.\<close>

lemma profile_candidates_lists:
  "(sps_profile_idc sps = 77 \<longrightarrow> profile_candidates sps max_dpb_size = [VAProfileH264Main])
   \<and> (sps_profile_idc sps = 100 \<longrightarrow> profile_candidates sps max_dpb_size = [VAProfileH264High])
   \<and> (sps_profile_idc sps = 128 \<longrightarrow>
        profile_candidates sps max_dpb_size = [VAProfileH264StereoHigh])
   \<and> (sps_profile_idc sps = 66 \<longrightarrow>
        profile_candidates sps max_dpb_size
          = (if sps_constraint_set0_flag sps \<noteq> 0 \<or> sps_constraint_set1_flag sps \<noteq> 0
                \<or> sps_constraint_set2_flag sps \<noteq> 0
             then [VAProfileH264ConstrainedBaseline, VAProfileH264Main] else []))
   \<and> (sps_profile_idc sps = 88 \<longrightarrow>
        profile_candidates sps max_dpb_size
          = (if sps_constraint_set1_flag sps \<noteq> 0 then [VAProfileH264Main] else []))
   \<and> (sps_profile_idc sps = 118 \<longrightarrow>
        profile_candidates sps max_dpb_size
          = [VAProfileH264MultiviewHigh]
            @ (if sps_extension_type sps = 2 \<and> sps_mvc_num_views_minus1 sps = 1
               then [VAProfileH264StereoHigh] else [])
            @ (if sint max_dpb_size \<le> 16 then [VAProfileH264MultiviewHigh] else []))
   \<and> (sps_profile_idc sps \<notin> {66, 77, 88, 100, 118, 128} \<longrightarrow>
        profile_candidates sps max_dpb_size = [])"
  by (simp add: profile_candidates_def profile_direct_def profile_fallbacks_def
        unat_views_minus1 GST_H264_NAL_EXTENSION_MVC_def
        GST_H264_PROFILE_BASELINE_def GST_H264_PROFILE_MAIN_def GST_H264_PROFILE_EXTENDED_def
        GST_H264_PROFILE_HIGH_def GST_H264_PROFILE_MULTIVIEW_HIGH_def
        GST_H264_PROFILE_STEREO_HIGH_def)

text \<open>
  Claim C2. For every SPS, \<^verbatim>\<open>_get_profile\<close> returns the first profile of the ordered
  candidate list that the accelerator reports as supported, and \<open>VAProfileNone\<close> (the
  failure) exactly when it supports no candidate. The list is given in the fields of the
  SPS (\<open>profile_idc\<close> 77 is Main, 100 High, 118 MultiviewHigh, 128 StereoHigh, 66
  Baseline, 88 Extended; extension type 2 is MVC): the direct mapping of the SPS profile
  (Main, High, MultiviewHigh and StereoHigh only), followed for Baseline with one of
  \<open>constraint_set0_flag\<close>, \<open>constraint_set1_flag\<close>, \<open>constraint_set2_flag\<close> set (the
  constraint-set flags of Annex A.2, the ones the function reads) by ConstrainedBaseline
  and Main, for Extended with \<open>constraint_set1_flag\<close> by Main, for MultiviewHigh by
  StereoHigh when the SPS has exactly two views (MVC extension with
  \<open>num_views_minus1 = 1\<close>) and then by MultiviewHigh when the maximal DPB size is at most
  16; every other profile has no candidate. In particular, Baseline with
  \<open>constraint_set1_flag\<close> and an accelerator that supports ConstrainedBaseline only
  gives ConstrainedBaseline, and a two-view MultiviewHigh SPS on an accelerator that
  supports StereoHigh but not MultiviewHigh gives StereoHigh.
\<close>

theorem get_profile_first_supported_candidate:
  "get_profile b sps max_dpb_size
     = (case find (va_decoder_has_profile b) (profile_candidates sps max_dpb_size) of
          Some p \<Rightarrow> p
        | None \<Rightarrow> VAProfileNone)
   \<and> ((get_profile b sps max_dpb_size = VAProfileNone)
        = (\<forall>p \<in> set (profile_candidates sps max_dpb_size). \<not> va_decoder_has_profile b p))
   \<and> (sps_profile_idc sps = GST_H264_PROFILE_BASELINE \<and> sps_constraint_set1_flag sps \<noteq> 0
        \<and> (\<forall>p. va_decoder_has_profile b p = (p = VAProfileH264ConstrainedBaseline))
       \<longrightarrow> profile_candidates sps max_dpb_size
             = [VAProfileH264ConstrainedBaseline, VAProfileH264Main]
           \<and> get_profile b sps max_dpb_size = VAProfileH264ConstrainedBaseline)
   \<and> (sps_profile_idc sps = 77 \<longrightarrow> profile_candidates sps max_dpb_size = [VAProfileH264Main])
   \<and> (sps_profile_idc sps = 100 \<longrightarrow> profile_candidates sps max_dpb_size = [VAProfileH264High])
   \<and> (sps_profile_idc sps = 128 \<longrightarrow>
        profile_candidates sps max_dpb_size = [VAProfileH264StereoHigh])
   \<and> (sps_profile_idc sps = 66 \<longrightarrow>
        profile_candidates sps max_dpb_size
          = (if sps_constraint_set0_flag sps \<noteq> 0 \<or> sps_constraint_set1_flag sps \<noteq> 0
                \<or> sps_constraint_set2_flag sps \<noteq> 0
             then [VAProfileH264ConstrainedBaseline, VAProfileH264Main] else []))
   \<and> (sps_profile_idc sps = 88 \<longrightarrow>
        profile_candidates sps max_dpb_size
          = (if sps_constraint_set1_flag sps \<noteq> 0 then [VAProfileH264Main] else []))
   \<and> (sps_profile_idc sps = 118 \<longrightarrow>
        profile_candidates sps max_dpb_size
          = [VAProfileH264MultiviewHigh]
            @ (if sps_extension_type sps = 2 \<and> sps_mvc_num_views_minus1 sps = 1
               then [VAProfileH264StereoHigh] else [])
            @ (if sint max_dpb_size \<le> 16 then [VAProfileH264MultiviewHigh] else []))
   \<and> (sps_profile_idc sps \<notin> {66, 77, 88, 100, 118, 128} \<longrightarrow>
        profile_candidates sps max_dpb_size = [])
   \<and> (sps_profile_idc sps = 118 \<and> sps_extension_type sps = 2
        \<and> sps_mvc_num_views_minus1 sps = 1
        \<and> \<not> va_decoder_has_profile b VAProfileH264MultiviewHigh
        \<and> va_decoder_has_profile b VAProfileH264StereoHigh
       \<longrightarrow> get_profile b sps max_dpb_size = VAProfileH264StereoHigh)"
proof -
  have a: "get_profile b sps max_dpb_size
     = (case find (va_decoder_has_profile b) (profile_candidates sps max_dpb_size) of
          Some p \<Rightarrow> p
        | None \<Rightarrow> VAProfileNone)"
    using get_profile_eq [of b sps max_dpb_size] by (simp add: first_supported_def)
  have n: "(get_profile b sps max_dpb_size = VAProfileNone)
        = (\<forall>p \<in> set (profile_candidates sps max_dpb_size). \<not> va_decoder_has_profile b p)"
    using first_supported_none [OF profile_candidates_not_none, of b sps max_dpb_size]
    by (simp add: get_profile_eq)
  have e: "profile_candidates sps max_dpb_size
             = [VAProfileH264ConstrainedBaseline, VAProfileH264Main]
           \<and> get_profile b sps max_dpb_size = VAProfileH264ConstrainedBaseline"
    if "sps_profile_idc sps = GST_H264_PROFILE_BASELINE" "sps_constraint_set1_flag sps \<noteq> 0"
      "\<forall>p. va_decoder_has_profile b p = (p = VAProfileH264ConstrainedBaseline)"
  proof -
    have "profile_candidates sps max_dpb_size
             = [VAProfileH264ConstrainedBaseline, VAProfileH264Main]"
      using that(1,2) profile_candidates_lists [of sps max_dpb_size]
      by (simp add: GST_H264_PROFILE_BASELINE_def)
    then show ?thesis
      using that(3) by (simp add: a)
  qed
  have st: "get_profile b sps max_dpb_size = VAProfileH264StereoHigh"
    if "sps_profile_idc sps = 118" "sps_extension_type sps = 2"
      "sps_mvc_num_views_minus1 sps = 1"
      "\<not> va_decoder_has_profile b VAProfileH264MultiviewHigh"
      "va_decoder_has_profile b VAProfileH264StereoHigh"
  proof -
    have "profile_candidates sps max_dpb_size
            = [VAProfileH264MultiviewHigh, VAProfileH264StereoHigh]
              @ (if sint max_dpb_size \<le> 16 then [VAProfileH264MultiviewHigh] else [])"
      using that(1,2,3) profile_candidates_lists [of sps max_dpb_size] by simp
    then show ?thesis
      using that(4,5) by (simp add: a)
  qed
  from a n e st profile_candidates_lists [of sps max_dpb_size] show ?thesis
    by blast
qed

theorem get_profile_first_supported_candidate_witness:
  "sps_profile_idc (ex_sps 66 1) = GST_H264_PROFILE_BASELINE
   \<and> sps_constraint_set1_flag (ex_sps 66 1) \<noteq> 0
   \<and> va_decoder_has_profile ex_backend VAProfileH264ConstrainedBaseline
   \<and> \<not> va_decoder_has_profile ex_backend VAProfileH264Main
   \<and> profile_candidates (ex_sps 66 1) 4 = [VAProfileH264ConstrainedBaseline, VAProfileH264Main]
   \<and> get_profile ex_backend (ex_sps 66 1) 4 = VAProfileH264ConstrainedBaseline
   \<and> profile_candidates (ex_sps 77 1) 4 = [VAProfileH264Main]
   \<and> get_profile ex_backend (ex_sps 77 1) 4 = VAProfileNone
   \<and> sps_profile_idc ((ex_sps 118 1)\<lparr>sps_extension_type := 2, sps_mvc_num_views_minus1 := 1\<rparr>)
       = 118
   \<and> profile_candidates
       ((ex_sps 118 1)\<lparr>sps_extension_type := 2, sps_mvc_num_views_minus1 := 1\<rparr>) 17
       = [VAProfileH264MultiviewHigh, VAProfileH264StereoHigh]
   \<and> get_profile (ex_backend\<lparr>va_decoder_has_profile := (=) VAProfileH264StereoHigh\<rparr>)
       ((ex_sps 118 1)\<lparr>sps_extension_type := 2, sps_mvc_num_views_minus1 := 1\<rparr>) 17
       = VAProfileH264StereoHigh
   \<and> profile_candidates
       ((ex_sps 118 1)\<lparr>sps_extension_type := 2, sps_mvc_num_views_minus1 := 2\<rparr>) 16
       = [VAProfileH264MultiviewHigh, VAProfileH264MultiviewHigh]
   \<and> get_profile (ex_backend\<lparr>va_decoder_has_profile := (=) VAProfileH264StereoHigh\<rparr>)
       ((ex_sps 118 1)\<lparr>sps_extension_type := 2, sps_mvc_num_views_minus1 := 2\<rparr>) 16
       = VAProfileNone"
proof -
  have s: "sps_profile_idc (ex_sps 66 1) = GST_H264_PROFILE_BASELINE"
    "sps_constraint_set1_flag (ex_sps 66 1) \<noteq> 0"
    by (simp_all add: ex_sps_def GST_H264_PROFILE_BASELINE_def)
  have h: "\<forall>p. va_decoder_has_profile ex_backend p = (p = VAProfileH264ConstrainedBaseline)"
    by (simp add: ex_backend_def)
  have m: "sps_profile_idc (ex_sps 77 1) = 77"
    by (simp add: ex_sps_def)
  have v: "sps_profile_idc ((ex_sps 118 1)\<lparr>sps_extension_type := 2, sps_mvc_num_views_minus1 := k\<rparr>)
             = 118"
    "sps_extension_type ((ex_sps 118 1)\<lparr>sps_extension_type := 2, sps_mvc_num_views_minus1 := k\<rparr>)
             = 2"
    "sps_mvc_num_views_minus1
       ((ex_sps 118 1)\<lparr>sps_extension_type := 2, sps_mvc_num_views_minus1 := k\<rparr>) = k" for k
    by (simp_all add: ex_sps_def)
  show ?thesis
    using get_profile_first_supported_candidate [of ex_backend "ex_sps 66 1" 4]
      get_profile_first_supported_candidate [of ex_backend "ex_sps 77 1" 4]
      get_profile_first_supported_candidate
        [of "ex_backend\<lparr>va_decoder_has_profile := (=) VAProfileH264StereoHigh\<rparr>"
            "(ex_sps 118 1)\<lparr>sps_extension_type := 2, sps_mvc_num_views_minus1 := 1\<rparr>" 17]
      get_profile_first_supported_candidate
        [of "ex_backend\<lparr>va_decoder_has_profile := (=) VAProfileH264StereoHigh\<rparr>"
            "(ex_sps 118 1)\<lparr>sps_extension_type := 2, sps_mvc_num_views_minus1 := 2\<rparr>" 16]
      s h m
    by (simp add: v)
qed

subsection \<open>The pixel format of a sequence\<close>

lemma va_rt_formats_nonzero:
  "VA_RT_FORMAT_YUV420 \<noteq> 0" "VA_RT_FORMAT_YUV422 \<noteq> 0" "VA_RT_FORMAT_YUV444 \<noteq> 0"
  "VA_RT_FORMAT_YUV420_10 \<noteq> 0" "VA_RT_FORMAT_YUV422_10 \<noteq> 0" "VA_RT_FORMAT_YUV444_10 \<noteq> 0"
  by (simp_all add: VA_RT_FORMAT_YUV420_def VA_RT_FORMAT_YUV422_def VA_RT_FORMAT_YUV444_def
        VA_RT_FORMAT_YUV420_10_def VA_RT_FORMAT_YUV422_10_def VA_RT_FORMAT_YUV444_10_def)

lemma get_rtformat_zero: "(get_rtformat d c = 0) = (d \<noteq> 8 \<and> d \<noteq> 10)"
  by (simp add: get_rtformat_def va_rt_formats_nonzero)

text \<open>
  Claim C3 as stated fails for a chroma format outside 4:2:0, 4:2:2 and 4:4:4: an 8-bit
  monochrome SPS (\<open>chroma_format_idc = 0\<close>, High profile) is mapped to the 4:2:0 format,
  which is not the "unsupported" value 0, and \<^verbatim>\<open>new_sequence\<close> succeeds on it.
\<close>

theorem get_rtformat_monochrome_counterexample:
  "get_rtformat (sps_bit_depth_luma_minus8 (ex_sps 100 0) + 8)
       (sps_chroma_format_idc (ex_sps 100 0)) = VA_RT_FORMAT_YUV420
   \<and> VA_RT_FORMAT_YUV420 \<noteq> 0
   \<and> sps_chroma_format_idc (ex_sps 100 0) = 0
   \<and> fst (gst_va_h264_dec_new_sequence
             (ex_backend\<lparr>va_decoder_has_profile := (=) VAProfileH264High\<rparr>)
             ex_self (ex_sps 100 0) 4) = True"
proof -
  have p: "get_profile (ex_backend\<lparr>va_decoder_has_profile := (=) VAProfileH264High\<rparr>)
             (ex_sps 100 0) 4 = VAProfileH264High"
    by (simp add: get_profile_eq first_supported_def profile_candidates_def profile_direct_def
          profile_fallbacks_def ex_sps_def GST_H264_PROFILE_BASELINE_def
          GST_H264_PROFILE_MAIN_def GST_H264_PROFILE_EXTENDED_def GST_H264_PROFILE_HIGH_def
          GST_H264_PROFILE_MULTIVIEW_HIGH_def GST_H264_PROFILE_STEREO_HIGH_def)
  have f: "get_rtformat (sps_bit_depth_luma_minus8 (ex_sps 100 0) + 8)
             (sps_chroma_format_idc (ex_sps 100 0)) = VA_RT_FORMAT_YUV420"
    by (simp add: get_rtformat_def ex_sps_def)
  have s: "fst (gst_va_h264_dec_new_sequence
             (ex_backend\<lparr>va_decoder_has_profile := (=) VAProfileH264High\<rparr>)
             ex_self (ex_sps 100 0) 4) = True"
    unfolding gst_va_h264_dec_new_sequence_def Let_def p f
    by (simp add: va_rt_formats_nonzero new_sequence_valign_def Let_def ex_backend_def
          split: prod.splits)
  from f s show ?thesis
    by (simp add: va_rt_formats_nonzero ex_sps_def)
qed

text \<open>
  Claim C3, amended. For every SPS the mapping depends on the luma bit depth first: for
  depth 8 or 10, \<open>chroma_format_idc\<close> 3 maps to the 4:4:4 format of that depth, 2 to the
  4:2:2 format, and every other value (1, which is 4:2:0, but also 0, monochrome) to the
  4:2:0 format; these are the six formats, none of them 0. For every other luma depth the
  mapping reports unsupported (0), whatever the chroma format, and \<^verbatim>\<open>new_sequence\<close>
  fails. The depth is \<open>bit_depth_luma_minus8 + 8\<close> in 8 bits.
\<close>

theorem get_rtformat_by_depth:
  "get_rtformat 8 3 = VA_RT_FORMAT_YUV444 \<and> get_rtformat 8 2 = VA_RT_FORMAT_YUV422
   \<and> get_rtformat 8 1 = VA_RT_FORMAT_YUV420
   \<and> get_rtformat 10 3 = VA_RT_FORMAT_YUV444_10 \<and> get_rtformat 10 2 = VA_RT_FORMAT_YUV422_10
   \<and> get_rtformat 10 1 = VA_RT_FORMAT_YUV420_10
   \<and> (chroma_format_idc \<noteq> 3 \<and> chroma_format_idc \<noteq> 2 \<longrightarrow>
        get_rtformat 8 chroma_format_idc = VA_RT_FORMAT_YUV420
        \<and> get_rtformat 10 chroma_format_idc = VA_RT_FORMAT_YUV420_10)
   \<and> ((get_rtformat bit_depth_luma chroma_format_idc = 0)
        = (bit_depth_luma \<noteq> 8 \<and> bit_depth_luma \<noteq> 10))
   \<and> (sps_bit_depth_luma_minus8 sps + 8 \<noteq> 8 \<and> sps_bit_depth_luma_minus8 sps + 8 \<noteq> 10 \<longrightarrow>
        get_rtformat (sps_bit_depth_luma_minus8 sps + 8) (sps_chroma_format_idc sps) = 0
        \<and> fst (gst_va_h264_dec_new_sequence b self sps max_dpb_size) = False)"
proof -
  have six: "get_rtformat 8 3 = VA_RT_FORMAT_YUV444 \<and> get_rtformat 8 2 = VA_RT_FORMAT_YUV422
   \<and> get_rtformat 8 1 = VA_RT_FORMAT_YUV420
   \<and> get_rtformat 10 3 = VA_RT_FORMAT_YUV444_10 \<and> get_rtformat 10 2 = VA_RT_FORMAT_YUV422_10
   \<and> get_rtformat 10 1 = VA_RT_FORMAT_YUV420_10"
    by (simp add: get_rtformat_def)
  have other: "get_rtformat 8 chroma_format_idc = VA_RT_FORMAT_YUV420
        \<and> get_rtformat 10 chroma_format_idc = VA_RT_FORMAT_YUV420_10"
    if "chroma_format_idc \<noteq> 3" "chroma_format_idc \<noteq> 2"
    using that by (simp add: get_rtformat_def)
  have fails: "get_rtformat (sps_bit_depth_luma_minus8 sps + 8) (sps_chroma_format_idc sps) = 0
        \<and> fst (gst_va_h264_dec_new_sequence b self sps max_dpb_size) = False"
    if "sps_bit_depth_luma_minus8 sps + 8 \<noteq> 8" "sps_bit_depth_luma_minus8 sps + 8 \<noteq> 10"
  proof -
    have z: "get_rtformat (sps_bit_depth_luma_minus8 sps + 8) (sps_chroma_format_idc sps) = 0"
      using that by (simp only: get_rtformat_zero) simp
    show ?thesis
      unfolding gst_va_h264_dec_new_sequence_def Let_def z by simp
  qed
  from six other fails get_rtformat_zero [of bit_depth_luma chroma_format_idc] show ?thesis
    by blast
qed

theorem get_rtformat_by_depth_witness:
  "(0 :: guint8) \<noteq> 3 \<and> (0 :: guint8) \<noteq> 2
   \<and> get_rtformat 8 0 = VA_RT_FORMAT_YUV420 \<and> get_rtformat 10 0 = VA_RT_FORMAT_YUV420_10
   \<and> sps_bit_depth_luma_minus8 ((ex_sps 100 1)\<lparr>sps_bit_depth_luma_minus8 := 4\<rparr>) + 8 \<noteq> 8
   \<and> sps_bit_depth_luma_minus8 ((ex_sps 100 1)\<lparr>sps_bit_depth_luma_minus8 := 4\<rparr>) + 8 \<noteq> 10
   \<and> get_rtformat 12 1 = 0
   \<and> fst (gst_va_h264_dec_new_sequence
             (ex_backend\<lparr>va_decoder_has_profile := (=) VAProfileH264High\<rparr>) ex_self
             ((ex_sps 100 1)\<lparr>sps_bit_depth_luma_minus8 := 4\<rparr>) 4) = False"
proof -
  have d: "sps_bit_depth_luma_minus8 ((ex_sps 100 1)\<lparr>sps_bit_depth_luma_minus8 := 4\<rparr>) + 8 = 12"
    "sps_chroma_format_idc ((ex_sps 100 1)\<lparr>sps_bit_depth_luma_minus8 := 4\<rparr>) = 1"
    by (simp_all add: ex_sps_def)
  show ?thesis
    using get_rtformat_by_depth [of 0 12 "(ex_sps 100 1)\<lparr>sps_bit_depth_luma_minus8 := 4\<rparr>"
        "ex_backend\<lparr>va_decoder_has_profile := (=) VAProfileH264High\<rparr>" ex_self 4]
    by (simp add: d)
qed

end
